theory Spec2Isabelle
  imports Complex_Main
begin

section \<open>Exceptions and user-interface output\<close>

text \<open>
  A Python exception is a value; \<open>str\<close> is its message. A function that can raise returns
  \<open>exn + 'a\<close>, with \<open>Inl\<close> for the exception.
\<close>

datatype exn =
    TypeError string
  | IndexError string
  | ZeroDivisionError string
  | AttributeError string
  | OSError string
  | LibraryError string

fun str :: "exn \<Rightarrow> string" where
  "str (TypeError m) = m"
| "str (IndexError m) = m"
| "str (ZeroDivisionError m) = m"
| "str (AttributeError m) = m"
| "str (OSError m) = m"
| "str (LibraryError m) = m"

text \<open>
  What a run writes to the page, in order. Only the Streamlit calls that carry the
  outcome of a run are recorded: \<open>st.error\<close>, \<open>st.success\<close>, \<open>st.warning\<close>,
  \<open>st.balloons\<close>, \<open>st.spinner\<close>, the two result cards and the probability section.
  Pure layout (\<open>st.markdown\<close> of static HTML, \<open>st.metric\<close>, \<open>st.columns\<close>, \<open>st.image\<close>,
  the charts) changes neither control flow nor session state and is left out; these calls
  are taken not to raise. Message texts are the source's without their leading emoji.
  The three \<open>Call\<close> events mark the calls into the external libraries
  (\<open>PIL.Image.open\<close>, \<open>model.predict\<close>, \<open>gdown.download\<close>).
\<close>

datatype event =
    Error string
  | Success string
  | Warning string
  | Balloons
  | Spinner string
  | HighConfidenceCard string real
  | UncertainCard string real real
  | ProbabilitySection "(string \<times> real) list"
  | Call_Image_open string
  | Call_model_predict
  | Call_gdown_download

section \<open>utils/image_utils.py\<close>

record uploaded_file =
  file_name :: string
  file_size :: nat

text \<open>
  A PIL image: its mode, its size (width, height) and the value of band \<open>c\<close> of the pixel at
  \<open>(x, y)\<close>. The number of bands is a function of the mode, as in PIL.
\<close>

record image =
  mode :: string
  width :: nat
  height :: nat
  pixel :: "nat \<Rightarrow> nat \<Rightarrow> nat \<Rightarrow> nat"

definition getbands :: "string \<Rightarrow> nat" where
  "getbands m =
     (if m \<in> set [''RGB'', ''YCbCr'', ''LAB'', ''HSV''] then 3
      else if m \<in> set [''RGBA'', ''CMYK'', ''RGBX'', ''RGBa''] then 4
      else if m \<in> set [''LA'', ''PA'', ''La''] then 2
      else 1)"

text \<open>
  The parts of PIL whose results the source does not determine are parameters: what
  \<open>Image.open\<close> makes of a file (an image, or an exception), the pixel values that
  \<open>convert\<close> computes, and the pixel values of the resampling filter of \<open>resize\<close>.
  \<open>convert\<close> and \<open>resize\<close> themselves are taken not to raise.
\<close>

record pil =
  image_open :: "uploaded_file \<Rightarrow> exn + image"
  convert_pixels :: "image \<Rightarrow> string \<Rightarrow> nat \<Rightarrow> nat \<Rightarrow> nat \<Rightarrow> nat"
  resample_pixels :: "image \<Rightarrow> nat \<times> nat \<Rightarrow> nat \<Rightarrow> nat \<Rightarrow> nat \<Rightarrow> nat"

definition convert :: "pil \<Rightarrow> image \<Rightarrow> string \<Rightarrow> image" where
  "convert p img m = img\<lparr>mode := m, pixel := convert_pixels p img m\<rparr>"

definition resize :: "pil \<Rightarrow> image \<Rightarrow> nat \<times> nat \<Rightarrow> image" where
  "resize p img sz = img\<lparr>width := fst sz, height := snd sz, pixel := resample_pixels p img sz\<rparr>"

text \<open>\<open>np.array(image)\<close>: rows, then columns, then bands.\<close>

definition np_array :: "image \<Rightarrow> nat list list list" where
  "np_array img =
     map (\<lambda>y. map (\<lambda>x. map (\<lambda>c. pixel img x y c) [0..<getbands (mode img)]) [0..<width img])
       [0..<height img]"

text \<open>\<open>np.expand_dims(a, axis=0)\<close>.\<close>

definition expand_dims0 :: "'a \<Rightarrow> 'a list" where
  "expand_dims0 a = [a]"

type_synonym tensor = "real list list list list"

text \<open>
  \<open>tf.keras.applications.vgg16.preprocess_input\<close> on an integer array, as the comment at
  the call describes it (cast to float, reverse the last axis, subtract the three means from
  channels 0, 1, 2). Its arithmetic is over the reals here: the rounding of the library's
  own \<open>float32\<close> subtraction is not modelled. Indexing channel 2 raises on an array with
  fewer than three channels.
\<close>

definition caffe_pixel :: "nat list \<Rightarrow> real list" where
  "caffe_pixel px =
     (let v = rev (map real px)
      in [v ! 0 - 103.939, v ! 1 - 116.779, v ! 2 - 123.68] @ drop 3 v)"

definition preprocess_input :: "nat list list list list \<Rightarrow> exn + tensor" where
  "preprocess_input x =
     (if list_all (list_all (list_all (\<lambda>px. 3 \<le> length px))) x
      then Inr (map (map (map caffe_pixel)) x)
      else Inl (IndexError ''index 2 is out of bounds''))"

definition IMAGE_SIZE :: "nat \<times> nat" where
  "IMAGE_SIZE = (224, 224)"

definition ALLOWED_EXTENSIONS :: "string list" where
  "ALLOWED_EXTENSIONS = [''jpg'', ''jpeg'', ''png'', ''bmp'']"

text \<open>
  \<open>s.split(sep)\<close> for a one-character separator: the pieces between the separators, never
  an empty list.
\<close>

fun split :: "char \<Rightarrow> string \<Rightarrow> string list" where
  "split sep [] = [[]]"
| "split sep (c # cs) =
     (if c = sep then [] # split sep cs
      else (case split sep cs of
              [] \<Rightarrow> [[c]]
            | w # ws \<Rightarrow> (c # w) # ws))"

text \<open>
  \<open>s.lower()\<close>. A file name is its UTF-8 bytes; the letters A to Z are lowered and every
  other byte is kept, which decides membership in the (ASCII) list of extensions as Python's
  \<open>lower\<close> does.
\<close>

definition lower_char :: "char \<Rightarrow> char" where
  "lower_char c =
     (case map_of (zip ''ABCDEFGHIJKLMNOPQRSTUVWXYZ'' ''abcdefghijklmnopqrstuvwxyz'') c of
        Some l \<Rightarrow> l
      | None \<Rightarrow> c)"

definition lower :: "string \<Rightarrow> string" where
  "lower s = map lower_char s"

text \<open>\<open>sep.join(xs)\<close>.\<close>

fun join :: "string \<Rightarrow> string list \<Rightarrow> string" where
  "join sep [] = []"
| "join sep [x] = x"
| "join sep (x # y # ys) = x @ sep @ join sep (y # ys)"

text \<open>\<open>uploaded_file.name.split('.')[-1].lower()\<close>.\<close>

definition file_extension :: "uploaded_file \<Rightarrow> string" where
  "file_extension f = lower (last (split CHR ''.'' (file_name f)))"

definition validate_image :: "uploaded_file option \<Rightarrow> bool \<times> event list" where
  "validate_image uploaded =
     (case uploaded of
        None \<Rightarrow> (False, [])
      | Some f \<Rightarrow>
          if file_extension f \<notin> set ALLOWED_EXTENSIONS
          then (False, [Error (''Unsupported file format. Please upload: ''
                               @ join '', '' ALLOWED_EXTENSIONS)])
          else if file_size f > 10 * 1024 * 1024
          then (False, [Error ''File too large. Please upload an image smaller than 10MB.''])
          else (True, []))"

text \<open>The body of the \<open>try\<close> of \<open>preprocess_image\<close>, and the function with its handler.\<close>

definition preprocess_image_try ::
  "pil \<Rightarrow> uploaded_file \<Rightarrow> exn + (tensor \<times> image)" where
  "preprocess_image_try p f =
     (case image_open p f of
        Inl e \<Rightarrow> Inl e
      | Inr opened \<Rightarrow>
          let img = (if mode opened \<noteq> ''RGB'' then convert p opened ''RGB'' else opened);
              original_image = img;
              resized = resize p img IMAGE_SIZE;
              image_array = expand_dims0 (np_array resized)
          in (case preprocess_input image_array of
                Inl e \<Rightarrow> Inl e
              | Inr t \<Rightarrow> Inr (t, original_image)))"

definition preprocess_image ::
  "pil \<Rightarrow> uploaded_file \<Rightarrow> (tensor option \<times> image option) \<times> event list" where
  "preprocess_image p f =
     (case preprocess_image_try p f of
        Inr (t, original_image) \<Rightarrow>
          ((Some t, Some original_image), [Call_Image_open (file_name f)])
      | Inl e \<Rightarrow>
          ((None, None),
           [Call_Image_open (file_name f), Error (''Error processing image: '' @ str e)]))"

text \<open>A tensor has shape \<open>(n, h, w, c)\<close>.\<close>

definition has_shape :: "nat \<times> nat \<times> nat \<times> nat \<Rightarrow> 'a list list list list \<Rightarrow> bool" where
  "has_shape s t =
     (case s of (n, h, w, c) \<Rightarrow>
        length t = n \<and>
        list_all (\<lambda>img. length img = h \<and>
          list_all (\<lambda>row. length row = w \<and> list_all (\<lambda>px. length px = c) row) img) t)"

section \<open>NumPy single precision\<close>

text \<open>
  Floats are modelled as reals. \<open>model.predict\<close> returns an array of \<open>float32\<close> (the
  default float type of Keras), and an arithmetic operation on a \<open>float32\<close> element gives
  the \<open>float32\<close> nearest to the exact result, a tie going to the even significand (IEEE 754
  binary32: 24 significant bits, exponents from \<open>-126\<close>, below which the spacing stays
  \<open>1 / 2 ^ 149\<close>). \<open>float32\<close> is that rounding, \<open>float32_ulp x\<close> the spacing of the
  \<open>float32\<close> values around \<open>x\<close>. Results beyond the largest \<open>float32\<close>, which IEEE
  rounds to infinity, are outside the model. Comparisons, \<open>max\<close> and the conversion
  \<open>float(...)\<close> to a Python float are exact.
\<close>

definition round_half_even :: "real \<Rightarrow> int" where
  "round_half_even r =
     (let f = \<lfloor>r\<rfloor>; d = r - of_int f
      in if d < 1/2 then f else if 1/2 < d then f + 1 else if even f then f else f + 1)"

definition float32_exponent :: "real \<Rightarrow> int" where
  "float32_exponent x = max \<lfloor>log 2 \<bar>x\<bar>\<rfloor> (- 126)"

definition float32_ulp :: "real \<Rightarrow> real" where
  "float32_ulp x = 2 powr (of_int (float32_exponent x) - 23)"

definition float32 :: "real \<Rightarrow> real" where
  "float32 x =
     (if x = 0 then 0
      else sgn x * of_int (round_half_even (\<bar>x\<bar> / float32_ulp x)) * float32_ulp x)"

section \<open>utils/model_utils.py\<close>

text \<open>
  A loaded Keras model, as far as the application uses it: \<open>predict\<close> (an array of rows of
  floats, or an exception), \<open>count_params\<close>, the shapes of the trainable weights and the
  number of layers.
\<close>

record model =
  predict :: "tensor \<Rightarrow> exn + real list list"
  count_params :: "exn + int"
  trainable_weights :: "int list list"
  num_layers :: nat

record prediction =
  predicted_class :: string
  confidence :: real
  cat_probability :: real
  dog_probability :: real
  all_probabilities :: "(string \<times> real) list"

text \<open>\<open>xs[i]\<close> for \<open>i \<ge> 0\<close>.\<close>

definition index :: "'a list \<Rightarrow> nat \<Rightarrow> exn + 'a" where
  "index xs i =
     (if i < length xs then Inr (xs ! i) else Inl (IndexError ''index out of range''))"

text \<open>From the probabilities to the result (lines 75 to 91).\<close>

definition format_results :: "real \<Rightarrow> real \<Rightarrow> prediction" where
  "format_results cat_prob dog_prob =
     \<lparr>predicted_class = (if dog_prob > cat_prob then ''Dog'' else ''Cat''),
      confidence = max cat_prob dog_prob,
      cat_probability = cat_prob,
      dog_probability = dog_prob,
      all_probabilities = [(''Cat'', cat_prob), (''Dog'', dog_prob)]\<rparr>"

text \<open>
  The row \<open>predictions[0]\<close> read as the two probabilities (lines 65 to 73). The element
  \<open>prob\<close> is a \<open>float32\<close>, so \<open>1 - prob\<close> is one too: the exact difference, rounded.
\<close>

definition read_probabilities :: "real list \<Rightarrow> exn + (real \<times> real)" where
  "read_probabilities row =
     (if length row = 1
      then (let prob = row ! 0 in Inr (float32 (1 - prob), prob))
      else (case index row 0 of
              Inl e \<Rightarrow> Inl e
            | Inr cat_prob \<Rightarrow>
                (case index row 1 of
                   Inl e \<Rightarrow> Inl e
                 | Inr dog_prob \<Rightarrow> Inr (cat_prob, dog_prob))))"

definition predict_image_try :: "model \<Rightarrow> tensor \<Rightarrow> exn + prediction" where
  "predict_image_try m processed_image =
     (case predict m processed_image of
        Inl e \<Rightarrow> Inl e
      | Inr predictions \<Rightarrow>
          (case index predictions 0 of
             Inl e \<Rightarrow> Inl e
           | Inr row \<Rightarrow>
               (case read_probabilities row of
                  Inl e \<Rightarrow> Inl e
                | Inr (cat_prob, dog_prob) \<Rightarrow> Inr (format_results cat_prob dog_prob))))"

definition predict_image :: "model option \<Rightarrow> tensor \<Rightarrow> prediction option \<times> event list" where
  "predict_image mo processed_image =
     (case mo of
        None \<Rightarrow> (None, [])
      | Some m \<Rightarrow>
          (case predict_image_try m processed_image of
             Inr results \<Rightarrow> (Some results, [Call_model_predict])
           | Inl e \<Rightarrow>
               (None, [Call_model_predict, Error (''Error making prediction: '' @ str e)])))"

text \<open>
  The outside world of \<open>load_model\<close>: whether the model file is there, what
  \<open>gdown.download\<close> does (raises, or returns with the file there or still missing), and
  what \<open>keras.models.load_model\<close> makes of a file that is there. On a missing file
  \<open>keras.models.load_model\<close> raises. The record also holds the PIL parameters.
\<close>

record env =
  path_exists :: bool
  gdown_download :: "exn + bool"
  keras_load_model :: "exn + model"
  pil_lib :: pil

definition load_model_try :: "env \<Rightarrow> (exn + model) \<times> event list" where
  "load_model_try e =
     (let model_path = ''vgg16_cat_dog_classifier.h5'';
          load = (\<lambda>present.
                    if present then keras_load_model e
                    else Inl (OSError (''No file or directory found at '' @ model_path)))
      in if \<not> path_exists e
         then (case gdown_download e of
                 Inl x \<Rightarrow>
                   (Inl x,
                    [Spinner ''Downloading model from Google Drive... Please wait.'',
                     Call_gdown_download])
               | Inr present \<Rightarrow>
                   (load present,
                    [Spinner ''Downloading model from Google Drive... Please wait.'',
                     Call_gdown_download, Success ''Model downloaded successfully!'']))
         else (load True, []))"

definition load_model :: "env \<Rightarrow> model option \<times> event list" where
  "load_model e =
     (case load_model_try e of
        (Inr m, evs) \<Rightarrow> (Some m, evs)
      | (Inl x, evs) \<Rightarrow> (None, evs @ [Error (''Error loading model: '' @ str x)]))"

record model_info =
  total_params :: int
  trainable_params :: int
  non_trainable_params :: int
  info_num_layers :: nat

definition get_model_info :: "model option \<Rightarrow> model_info option \<times> event list" where
  "get_model_info mo =
     (case mo of
        None \<Rightarrow> (None, [])
      | Some m \<Rightarrow>
          (case count_params m of
             Inl x \<Rightarrow> (None, [Error (''Error getting model info: '' @ str x)])
           | Inr n_total \<Rightarrow>
               let trainable = sum_list (map prod_list (trainable_weights m))
               in (Some \<lparr>total_params = n_total,
                         trainable_params = trainable,
                         non_trainable_params = n_total - trainable,
                         info_num_layers = num_layers m\<rparr>, [])))"

section \<open>Session state and user input\<close>

text \<open>
  \<open>st.session_state\<close>: each key is absent (\<open>None\<close>) or holds a value. The value of the key
  \<open>model\<close> is itself \<open>None\<close> or a model.
\<close>

record session_state =
  ss_model :: "model option option"
  ss_model_loaded :: "bool option"
  predictions_made :: "int option"
  cats_detected :: "int option"
  dogs_detected :: "int option"

definition empty_session :: session_state where
  "empty_session =
     \<lparr>ss_model = None, ss_model_loaded = None,
      predictions_made = None, cats_detected = None, dogs_detected = None\<rparr>"

text \<open>What the widgets return in one run of the script.\<close>

record inputs =
  theme_choice :: string
  slider_confidence_threshold :: real
  toggle_show_probabilities :: bool
  toggle_show_image_info :: bool
  toggle_show_processing_steps :: bool
  file_uploader :: "uploaded_file option"
  button_clicked :: bool

record settings =
  confidence_threshold :: real
  show_probabilities :: bool
  show_image_info :: bool
  show_processing_steps :: bool
  theme :: string

section \<open>components/sidebar.py\<close>

text \<open>The model dashboard (lines 72 to 124): it can raise on the division.\<close>

definition model_dashboard :: "model option \<Rightarrow> (exn + unit) \<times> event list" where
  "model_dashboard mo =
     (if mo \<noteq> None
      then (case get_model_info mo of
              (None, evs) \<Rightarrow> (Inr (), evs)
            | (Some info, evs) \<Rightarrow>
                if total_params info = 0
                then (Inl (ZeroDivisionError ''division by zero''), evs)
                else (Inr (), evs))
      else (Inr (), [Error ''Model not loaded'']))"

text \<open>The initialisation of the session statistics (lines 224 to 229).\<close>

definition init_stats :: "session_state \<Rightarrow> session_state" where
  "init_stats ss =
     (let ss1 = (if predictions_made ss = None then ss\<lparr>predictions_made := Some 0\<rparr> else ss);
          ss2 = (if cats_detected ss1 = None then ss1\<lparr>cats_detected := Some 0\<rparr> else ss1)
      in if dogs_detected ss2 = None then ss2\<lparr>dogs_detected := Some 0\<rparr> else ss2)"

definition render_sidebar ::
  "model option \<Rightarrow> inputs \<Rightarrow> session_state \<Rightarrow> (exn + settings) \<times> session_state \<times> event list"
where
  "render_sidebar mo inp ss =
     (case model_dashboard mo of
        (Inl x, evs) \<Rightarrow> (Inl x, ss, evs)
      | (Inr _, evs) \<Rightarrow>
          (Inr \<lparr>confidence_threshold = slider_confidence_threshold inp,
                show_probabilities = toggle_show_probabilities inp,
                show_image_info = toggle_show_image_info inp,
                show_processing_steps = toggle_show_processing_steps inp,
                theme = theme_choice inp\<rparr>,
           init_stats ss, evs))"

section \<open>components/ui\_components.py\<close>

definition render_image_display ::
  "pil \<Rightarrow> uploaded_file \<Rightarrow> settings \<Rightarrow> (tensor option \<times> image option) \<times> event list" where
  "render_image_display p f s =
     (case validate_image (Some f) of
        (False, evs) \<Rightarrow>
          ((None, None),
           evs @ [Error ''Invalid image file. Please upload a valid JPG, PNG, or BMP image.''])
      | (True, evs) \<Rightarrow>
          (case preprocess_image p f of
             ((None, _), evs') \<Rightarrow>
               ((None, None),
                evs @ [Spinner ''Processing image...''] @ evs'
                @ [Error ''Failed to process the image. Please try a different file.''])
           | ((Some processed_image, original_image), evs') \<Rightarrow>
               ((Some processed_image, original_image),
                evs @ [Spinner ''Processing image...''] @ evs'
                @ [Success ''Image processed successfully!''])))"

text \<open>
  \<open>st.session_state.k += 1\<close> raises AttributeError when the key is absent. The three
  updates of lines 328 to 333, in the source's order.
\<close>

definition update_statistics :: "prediction \<Rightarrow> session_state \<Rightarrow> exn + session_state" where
  "update_statistics results ss =
     (case predictions_made ss of
        None \<Rightarrow> Inl (AttributeError ''st.session_state has no attribute predictions_made'')
      | Some n \<Rightarrow>
          let ss1 = ss\<lparr>predictions_made := Some (n + 1)\<rparr>
          in if predicted_class results = ''Cat''
             then (case cats_detected ss1 of
                     None \<Rightarrow> Inl (AttributeError ''st.session_state has no attribute cats_detected'')
                   | Some c \<Rightarrow> Inr (ss1\<lparr>cats_detected := Some (c + 1)\<rparr>))
             else (case dogs_detected ss1 of
                     None \<Rightarrow> Inl (AttributeError ''st.session_state has no attribute dogs_detected'')
                   | Some d \<Rightarrow> Inr (ss1\<lparr>dogs_detected := Some (d + 1)\<rparr>)))"

text \<open>
  The result display (lines 335 to 428). The formatted percentages of the two messages are
  carried by the card events.
\<close>

definition result_display :: "prediction \<Rightarrow> settings \<Rightarrow> event list" where
  "result_display results s =
     (if confidence results \<ge> confidence_threshold s
      then [HighConfidenceCard (predicted_class results) (confidence results),
            Success ''High confidence prediction!'']
      else [UncertainCard (predicted_class results) (confidence results)
              (confidence_threshold s),
            Warning ''Low confidence prediction. Consider uploading a clearer image.''])
     @ (if show_probabilities s then [ProbabilitySection (all_probabilities results)] else [])"

definition render_prediction_results ::
  "prediction option \<Rightarrow> settings \<Rightarrow> session_state
     \<Rightarrow> (exn + unit) \<times> session_state \<times> event list" where
  "render_prediction_results ro s ss =
     (case ro of
        None \<Rightarrow>
          (Inr (), ss,
           [Error ''Could not generate prediction. Please try again with a different image.''])
      | Some results \<Rightarrow>
          (case update_statistics results ss of
             Inl x \<Rightarrow>
               (Inl x,
                (case predictions_made ss of
                   None \<Rightarrow> ss
                 | Some n \<Rightarrow> ss\<lparr>predictions_made := Some (n + 1)\<rparr>),
                [])
           | Inr ss' \<Rightarrow> (Inr (), ss', result_display results s)))"

section \<open>app.py\<close>

text \<open>
  How a run of \<open>main\<close> ends: it returns, it calls \<open>st.stop()\<close> (which ends the run of the
  script and is not an \<open>Exception\<close>), or it raises.
\<close>

datatype control = Return | Stop | Raise exn

text \<open>Lines 72 to 88: the session keys and the one-time load.\<close>

definition init_session :: "session_state \<Rightarrow> session_state" where
  "init_session ss =
     (let ss1 = (if ss_model ss = None then ss\<lparr>ss_model := Some None\<rparr> else ss)
      in if ss_model_loaded ss1 = None then ss1\<lparr>ss_model_loaded := Some False\<rparr> else ss1)"

definition session_model :: "session_state \<Rightarrow> model option" where
  "session_model ss = (case ss_model ss of None \<Rightarrow> None | Some mo \<Rightarrow> mo)"

definition load_on_first_run :: "env \<Rightarrow> session_state \<Rightarrow> bool \<times> session_state \<times> event list" where
  "load_on_first_run e ss =
     (if ss_model_loaded ss \<noteq> Some True
      then (case load_model e of
              (mo, evs) \<Rightarrow>
                let ss' = ss\<lparr>ss_model := Some mo, ss_model_loaded := Some True\<rparr>;
                    sp = Spinner ''Loading AI model... This may take a moment on first run.''
                in if mo \<noteq> None
                   then (True, ss', sp # evs @ [Success ''Model loaded successfully!''])
                   else (False, ss',
                         sp # evs
                         @ [Error ''Failed to load model. Please check if the model file exists.'']))
      else (True, ss, []))"

text \<open>
  Lines 112 to 126: the prediction. The second \<open>if\<close> is at the level of the first, so
  it reads \<open>results['confidence']\<close> also when \<open>results\<close> is \<open>None\<close>, which raises
  TypeError, and its \<open>else\<close> is the branch of a confidence below the threshold.
\<close>

definition predict_and_show ::
  "model option \<Rightarrow> tensor \<Rightarrow> settings \<Rightarrow> session_state
     \<Rightarrow> control \<times> session_state \<times> event list" where
  "predict_and_show mo processed_image s ss =
     (case predict_image mo processed_image of
        (results, evs) \<Rightarrow>
          let evs1 = Spinner ''Analyzing image... Please wait!'' # evs
          in (case results of
                None \<Rightarrow>
                  (Raise (TypeError ([CHR 0x27] @ ''NoneType'' @ [CHR 0x27]
                                     @ '' object is not subscriptable'')),
                   ss, evs1)
              | Some r \<Rightarrow>
                  (case render_prediction_results results s ss of
                     (Inl x, ss', evs2) \<Rightarrow> (Raise x, ss', evs1 @ evs2)
                   | (Inr _, ss', evs2) \<Rightarrow>
                       (Return, ss',
                        evs1 @ evs2
                        @ (if confidence r \<ge> confidence_threshold s
                           then [Balloons]
                           else [Error ''Failed to make prediction. Please try again.''])))))"

definition main :: "env \<Rightarrow> inputs \<Rightarrow> session_state \<Rightarrow> control \<times> session_state \<times> event list" where
  "main e inp ss0 =
     (case load_on_first_run e (init_session ss0) of
        (False, ss1, evs1) \<Rightarrow> (Stop, ss1, evs1)
      | (True, ss1, evs1) \<Rightarrow>
          (case render_sidebar (session_model ss1) inp ss1 of
             (Inl x, ss2, evs2) \<Rightarrow> (Raise x, ss2, evs1 @ evs2)
           | (Inr s, ss2, evs2) \<Rightarrow>
               if session_model ss2 = None
               then (Stop, ss2,
                     evs1 @ evs2 @ [Error ''Model not available. Please refresh the page.''])
               else (case file_uploader inp of
                       None \<Rightarrow> (Return, ss2, evs1 @ evs2)
                     | Some f \<Rightarrow>
                         (case render_image_display (pil_lib e) f s of
                            ((None, _), evs3) \<Rightarrow> (Return, ss2, evs1 @ evs2 @ evs3)
                          | ((Some processed_image, _), evs3) \<Rightarrow>
                              if button_clicked inp
                              then (case predict_and_show (session_model ss2) processed_image s ss2 of
                                      (c, ss3, evs4) \<Rightarrow> (c, ss3, evs1 @ evs2 @ evs3 @ evs4))
                              else (Return, ss2, evs1 @ evs2 @ evs3)))))"

text \<open>
  The script (lines 172 to 182): an exception of \<open>main\<close> is caught and shown; after a
  \<open>st.stop()\<close> nothing more runs.
\<close>

definition script :: "env \<Rightarrow> inputs \<Rightarrow> session_state \<Rightarrow> session_state \<times> event list" where
  "script e inp ss =
     (case main e inp ss of
        (Raise x, ss', evs) \<Rightarrow>
          (ss', evs @ [Error (''Application Error: '' @ str x),
                       Error ''Please refresh the page or contact support if the problem persists.''])
      | (_, ss', evs) \<Rightarrow> (ss', evs))"

section \<open>Concrete inputs and observations\<close>

text \<open>A model whose \<open>predict\<close> returns one fixed row for every input.\<close>

definition const_model :: "real list \<Rightarrow> model" where
  "const_model row =
     \<lparr>predict = (\<lambda>_. Inr [row]), count_params = Inr 1000,
      trainable_weights = [[10, 10]], num_layers = 3\<rparr>"

text \<open>Uploads: a 10.5 MiB JPEG (11010048 bytes) and a 200 KiB PNG.\<close>

definition oversized_jpg :: uploaded_file where
  "oversized_jpg = \<lparr>file_name = ''holiday.photo.JPG'', file_size = 11010048\<rparr>"

definition garden_png :: uploaded_file where
  "garden_png = \<lparr>file_name = ''garden.png'', file_size = 204800\<rparr>"

text \<open>
  A PIL whose \<open>Image.open\<close> yields a 500 by 300 RGBA image, whose \<open>convert\<close> keeps the
  first bands and whose \<open>resize\<close> samples the nearest source pixel.
\<close>

definition rgba_500x300 :: image where
  "rgba_500x300 =
     \<lparr>mode = ''RGBA'', width = 500, height = 300, pixel = (\<lambda>x y c. (x + y + c) mod 256)\<rparr>"

definition nearest_pil :: pil where
  "nearest_pil =
     \<lparr>image_open = (\<lambda>f. Inr rgba_500x300),
      convert_pixels = (\<lambda>img m. pixel img),
      resample_pixels =
        (\<lambda>img sz x y c. pixel img (x * width img div fst sz) (y * height img div snd sz) c)\<rparr>"

text \<open>The sidebar's default settings.\<close>

definition default_settings :: settings where
  "default_settings =
     \<lparr>confidence_threshold = 8/10, show_probabilities = True, show_image_info = False,
      show_processing_steps = True, theme = ''Dark''\<rparr>"

text \<open>A model whose \<open>predict\<close> raises, as on an input it cannot take.\<close>

definition failing_model :: model where
  "failing_model =
     \<lparr>predict = (\<lambda>_. Inl (LibraryError ''Graph execution error'')), count_params = Inr 1000,
      trainable_weights = [[10, 10]], num_layers = 3\<rparr>"

text \<open>A session in which the model was loaded by an earlier run.\<close>

definition loaded_session :: "model \<Rightarrow> session_state" where
  "loaded_session m =
     \<lparr>ss_model = Some (Some m), ss_model_loaded = Some True,
      predictions_made = Some 3, cats_detected = Some 1, dogs_detected = Some 2\<rparr>"

text \<open>
  An outside world in which the model file is missing and \<open>gdown.download\<close> raises, and
  one in which the file is there and loads as the model \<open>m\<close>.
\<close>

definition env_unavailable :: env where
  "env_unavailable =
     \<lparr>path_exists = False,
      gdown_download = Inl (LibraryError ''Failed to retrieve file url''),
      keras_load_model = Inr (const_model [9/10]),
      pil_lib = nearest_pil\<rparr>"

definition env_with :: "model \<Rightarrow> env" where
  "env_with m =
     \<lparr>path_exists = True, gdown_download = Inr True, keras_load_model = Inr m,
      pil_lib = nearest_pil\<rparr>"

text \<open>
  The widget values of a run in which the 200 KiB PNG is uploaded and the prediction button
  is clicked, with the sidebar at its defaults.
\<close>

definition upload_and_click :: inputs where
  "upload_and_click =
     \<lparr>theme_choice = ''Dark'', slider_confidence_threshold = 8/10,
      toggle_show_probabilities = True, toggle_show_image_info = False,
      toggle_show_processing_steps = True,
      file_uploader = Some garden_png, button_clicked = True\<rparr>"

text \<open>The widget values \<open>upload_and_click\<close> with another position of the threshold slider.\<close>

definition upload_and_click_at :: "real \<Rightarrow> inputs" where
  "upload_and_click_at t = upload_and_click\<lparr>slider_confidence_threshold := t\<rparr>"

text \<open>
  The tensor that \<open>preprocess_image\<close> makes of the 500 by 300 RGBA image under
  \<open>nearest_pil\<close>.
\<close>

definition garden_tensor :: tensor where
  "garden_tensor =
     map (map (map caffe_pixel))
       (expand_dims0 (np_array (resize nearest_pil (convert nearest_pil rgba_500x300 ''RGB'')
          IMAGE_SIZE)))"

text \<open>
  Streamlit reruns the script on every interaction, on the session state the last run left.
  A session is the list of its runs, each with its outside world and its widget values.
\<close>

fun session_runs :: "(env \<times> inputs) list \<Rightarrow> session_state \<Rightarrow> session_state \<times> event list" where
  "session_runs [] ss = (ss, [])"
| "session_runs ((e, inp) # rs) ss =
     (case script e inp ss of
        (ss', evs) \<Rightarrow> (case session_runs rs ss' of (ss'', evs') \<Rightarrow> (ss'', evs @ evs')))"

text \<open>The label and the confidence that a page shows, and the probabilities it shows.\<close>

fun shown_result :: "event \<Rightarrow> (string \<times> real) list" where
  "shown_result (HighConfidenceCard l c) = [(l, c)]"
| "shown_result (UncertainCard l c t) = [(l, c)]"
| "shown_result _ = []"

definition shown_results :: "event list \<Rightarrow> (string \<times> real) list" where
  "shown_results evs = concat (map shown_result evs)"

fun shown_probability :: "event \<Rightarrow> (string \<times> real) list list" where
  "shown_probability (ProbabilitySection ps) = [ps]"
| "shown_probability _ = []"

definition shown_probabilities :: "event list \<Rightarrow> (string \<times> real) list list" where
  "shown_probabilities evs = concat (map shown_probability evs)"

text \<open>What a run lets the user see of the computation, apart from the presentation.\<close>

definition outcome ::
  "control \<times> session_state \<times> event list
     \<Rightarrow> control \<times> session_state \<times> (string \<times> real) list \<times> (string \<times> real) list list" where
  "outcome r = (fst r, fst (snd r), shown_results (snd (snd r)), shown_probabilities (snd (snd r)))"

text \<open>The three counters of a session state.\<close>

definition counters :: "session_state \<Rightarrow> int option \<times> int option \<times> int option" where
  "counters ss = (predictions_made ss, cats_detected ss, dogs_detected ss)"

text \<open>
  The statistics invariant: the three counters are all absent (before the first sidebar), or
  all present with \<open>predictions_made = cats_detected + dogs_detected\<close>.
\<close>

definition stats_inv :: "session_state \<Rightarrow> bool" where
  "stats_inv ss =
     (case (predictions_made ss, cats_detected ss, dogs_detected ss) of
        (None, None, None) \<Rightarrow> True
      | (Some n, Some c, Some d) \<Rightarrow> n = c + d
      | _ \<Rightarrow> False)"

text \<open>Two session states that differ at most in the three counters.\<close>

definition same_but_counters :: "session_state \<Rightarrow> session_state \<Rightarrow> bool" where
  "same_but_counters ss ss' =
     (ss_model ss = ss_model ss' \<and> ss_model_loaded ss = ss_model_loaded ss')"

text \<open>
  The exception of \<open>results['confidence']\<close> when \<open>results\<close> is \<open>None\<close>, as
  \<open>predict_and_show\<close> raises it.
\<close>

definition none_type_error :: exn where
  "none_type_error =
     TypeError ([CHR 0x27] @ ''NoneType'' @ [CHR 0x27] @ '' object is not subscriptable'')"

text \<open>
  The session state after a failed load: the load is marked as done and the model is
  \<open>None\<close>.
\<close>

definition refused :: "session_state \<Rightarrow> bool" where
  "refused ss = (ss_model ss = Some None \<and> ss_model_loaded ss = Some True)"

text \<open>
  What a prediction attempt of \<open>main\<close> writes first: the spinner of line 114 and the call
  of \<open>model.predict\<close>.
\<close>

definition classify_events :: "event list" where
  "classify_events = [Spinner ''Analyzing image... Please wait!'', Call_model_predict]"

section \<open>Properties\<close>

subsection \<open>Single-precision rounding\<close>

lemma round_half_even_error: "\<bar>of_int (round_half_even r) - r\<bar> \<le> 1/2"
proof -
  have "of_int \<lfloor>r\<rfloor> \<le> r" "r < of_int \<lfloor>r\<rfloor> + 1" by linarith+
  then show ?thesis by (auto simp add: round_half_even_def Let_def)
qed

lemma round_half_even_of_int: "round_half_even (of_int n) = n"
  by (simp add: round_half_even_def)

lemma round_half_even_ge: "of_int n \<le> r \<Longrightarrow> n \<le> round_half_even r"
proof -
  assume "of_int n \<le> r"
  then have "n \<le> \<lfloor>r\<rfloor>" by (simp add: le_floor_iff)
  then show ?thesis by (auto simp add: round_half_even_def Let_def)
qed

lemma round_half_even_le: "r \<le> of_int n \<Longrightarrow> round_half_even r \<le> n"
proof -
  assume a: "r \<le> of_int n"
  show ?thesis
  proof (cases "r = of_int n")
    case True
    then show ?thesis by (simp add: round_half_even_of_int)
  next
    case False
    with a have "r < of_int n" by simp
    then have "\<lfloor>r\<rfloor> < n" by (simp add: floor_less_iff)
    then show ?thesis by (auto simp add: round_half_even_def Let_def)
  qed
qed

lemma float32_ulp_pos: "0 < float32_ulp x"
  by (simp add: float32_ulp_def)

lemma float32_exponent_unit:
  assumes "0 < x" and "x \<le> 1"
  shows "float32_exponent x \<le> 0"
proof -
  have "log 2 \<bar>x\<bar> \<le> 0" using assms by simp
  then have "\<lfloor>log 2 \<bar>x\<bar>\<rfloor> \<le> 0" by (simp add: floor_le_iff) 
  then show ?thesis by (simp add: float32_exponent_def)
qed

lemma float32_error:
  "\<bar>float32 x - x\<bar> \<le> float32_ulp x / 2"
proof (cases "x = 0")
  case True
  then show ?thesis using float32_ulp_pos [of x] by (simp add: float32_def)
next
  case False
  let ?u = "float32_ulp x"
  let ?n = "round_half_even (\<bar>x\<bar> / ?u)"
  have u: "0 < ?u" by (rule float32_ulp_pos)
  have "\<bar>of_int ?n - \<bar>x\<bar> / ?u\<bar> \<le> 1/2" by (rule round_half_even_error)
  then have "\<bar>of_int ?n - \<bar>x\<bar> / ?u\<bar> * ?u \<le> 1/2 * ?u"
    using u by (simp only: mult_le_cancel_right_pos)
  moreover have "\<bar>of_int ?n - \<bar>x\<bar> / ?u\<bar> * ?u = \<bar>of_int ?n * ?u - \<bar>x\<bar>\<bar>"
  proof -
    have "\<bar>of_int ?n - \<bar>x\<bar> / ?u\<bar> * ?u = \<bar>(of_int ?n - \<bar>x\<bar> / ?u) * ?u\<bar>"
      using u by (simp add: abs_mult)
    also have "(of_int ?n - \<bar>x\<bar> / ?u) * ?u = of_int ?n * ?u - \<bar>x\<bar>"
      using u by (simp add: left_diff_distrib)
    finally show ?thesis .
  qed
  ultimately have e: "\<bar>of_int ?n * ?u - \<bar>x\<bar>\<bar> \<le> ?u / 2" by simp
  have "float32 x - x = sgn x * (of_int ?n * ?u - \<bar>x\<bar>)"
    using False by (simp add: float32_def right_diff_distrib sgn_real_def)
  then have "\<bar>float32 x - x\<bar> = \<bar>of_int ?n * ?u - \<bar>x\<bar>\<bar>"
    using False by (simp add: abs_mult sgn_real_def)
  with e show ?thesis by simp
qed

lemma float32_unit_error:
  assumes "0 \<le> x" and "x \<le> 1"
  shows "\<bar>float32 x - x\<bar> \<le> 1 / 2 ^ 24"
proof (cases "x = 0")
  case True
  then show ?thesis by (simp add: float32_def)
next
  case False
  with assms have "0 < x" by simp
  from float32_exponent_unit [OF this assms(2)]
  have "real_of_int (float32_exponent x) - 23 \<le> - 23" by simp
  then have "float32_ulp x \<le> 2 powr (- 23)"
    unfolding float32_ulp_def by (simp only: powr_le_cancel_iff) 
  also have "2 powr (- 23 :: real) = 1 / 2 ^ 23"
    by (simp add: powr_minus_divide powr_realpow [symmetric]) 
  finally have "float32_ulp x / 2 \<le> 1 / 2 ^ 24" by simp
  with float32_error [of x] show ?thesis by linarith
qed

lemma float32_grid:
  assumes "x \<noteq> 0" and "g = of_int n * float32_ulp x"
  shows "(g \<le> \<bar>x\<bar> \<longrightarrow> g \<le> \<bar>float32 x\<bar>) \<and> (\<bar>x\<bar> \<le> g \<longrightarrow> \<bar>float32 x\<bar> \<le> g)"
proof -
  let ?u = "float32_ulp x"
  let ?r = "\<bar>x\<bar> / ?u"
  have u: "0 < ?u" by (rule float32_ulp_pos)
  have r0: "0 \<le> ?r" using u by simp
  have n0: "0 \<le> round_half_even ?r" using round_half_even_ge [of 0 ?r] r0 by simp
  have a: "\<bar>float32 x\<bar> = of_int (round_half_even ?r) * ?u"
    using assms(1) u n0 by (simp add: float32_def abs_mult sgn_real_def)
  have "g \<le> \<bar>x\<bar> \<Longrightarrow> g \<le> \<bar>float32 x\<bar>"
  proof -
    assume "g \<le> \<bar>x\<bar>"
    then have "of_int n \<le> ?r" using u by (simp add: assms(2) pos_le_divide_eq)
    then have "n \<le> round_half_even ?r" by (rule round_half_even_ge)
    then have "of_int n * ?u \<le> of_int (round_half_even ?r) * ?u"
      using u by simp
    then show ?thesis by (simp add: a assms(2))
  qed
  moreover have "\<bar>x\<bar> \<le> g \<Longrightarrow> \<bar>float32 x\<bar> \<le> g"
  proof -
    assume "\<bar>x\<bar> \<le> g"
    then have "?r \<le> of_int n" using u by (simp add: assms(2) pos_divide_le_eq)
    then have "round_half_even ?r \<le> n" by (rule round_half_even_le)
    then have "of_int (round_half_even ?r) * ?u \<le> of_int n * ?u"
      using u by simp
    then show ?thesis by (simp add: a assms(2))
  qed
  ultimately show ?thesis by blast
qed

lemma float32_nonneg: "0 \<le> x \<Longrightarrow> 0 \<le> float32 x"
proof -
  assume "0 \<le> x"
  have "0 \<le> round_half_even (\<bar>x\<bar> / float32_ulp x)"
    using round_half_even_ge [of 0 "\<bar>x\<bar> / float32_ulp x"] float32_ulp_pos [of x] by simp
  then show ?thesis using \<open>0 \<le> x\<close> float32_ulp_pos [of x]
    by (simp add: float32_def sgn_real_def)
qed

lemma power_of_two_on_grid:
  assumes "0 < x" and "x \<le> 1" and "k \<le> 23"
  shows "\<exists>n. 1 / 2 ^ k = of_int n * float32_ulp x"
proof -
  let ?e = "float32_exponent x"
  have e: "?e \<le> 0" using assms(1,2) by (rule float32_exponent_unit)
  define j where "j = nat (23 - ?e - int k)"
  have j: "int j = 23 - ?e - int k" using e assms(3) by (simp add: j_def)
  have "(2::real) ^ j = 2 powr (real j)" by (simp add: powr_realpow)
  also have "real j = 23 - of_int ?e - real k"
    using j by (metis of_int_diff of_int_of_nat_eq of_int_numeral)
  finally have "(2::real) ^ j * float32_ulp x = 2 powr (- real k)"
    by (simp add: float32_ulp_def powr_add [symmetric])
  also have "\<dots> = 1 / 2 ^ k" by (simp add: powr_minus_divide powr_realpow)
  finally have "1 / 2 ^ k = of_int (2 ^ j) * float32_ulp x" by simp
  then show ?thesis by blast
qed

lemma float32_unit_interval:
  assumes "0 \<le> x" and "x \<le> 1"
  shows "0 \<le> float32 x" and "float32 x \<le> 1"
    and "1/2 \<le> x \<Longrightarrow> 1/2 \<le> float32 x" and "x \<le> 1/2 \<Longrightarrow> float32 x \<le> 1/2"
proof -
  show n: "0 \<le> float32 x" using assms(1) by (rule float32_nonneg)
  show "float32 x \<le> 1"
  proof (cases "x = 0")
    case True
    then show ?thesis by (simp add: float32_def)
  next
    case False
    with assms have p: "0 < x" by simp
    from power_of_two_on_grid [OF p assms(2), of 0]
    obtain m where "1 = of_int m * float32_ulp x" by auto
    from float32_grid [OF False this] assms p n show ?thesis by simp
  qed
  show "1/2 \<le> float32 x" if "1/2 \<le> x"
  proof -
    have p: "0 < x" and z: "x \<noteq> 0" using that by simp_all
    from power_of_two_on_grid [OF p assms(2), of 1]
    obtain m where "1 / 2 = of_int m * float32_ulp x" by auto
    from float32_grid [OF z this] that p n show ?thesis by simp
  qed
  show "float32 x \<le> 1/2" if "x \<le> 1/2"
  proof (cases "x = 0")
    case True
    then show ?thesis by (simp add: float32_def)
  next
    case False
    with assms have p: "0 < x" by simp
    from power_of_two_on_grid [OF p assms(2), of 1]
    obtain m where "1 / 2 = of_int m * float32_ulp x" by auto
    from float32_grid [OF False this] that p n show ?thesis by simp
  qed
qed

lemma float32_exponent_half:
  assumes "1/2 \<le> x" and "x < 1"
  shows "float32_exponent x = - 1"
proof -
  have p: "0 < x" using assms by simp
  have "- 1 \<le> log 2 x" using assms(1) p by (simp add: le_log_iff powr_minus_divide)
  moreover have "log 2 x < 0" using assms(2) p by simp
  ultimately have "\<lfloor>log 2 x\<rfloor> = - 1" by (simp add: floor_eq_iff)
  then show ?thesis using p by (simp add: float32_exponent_def)
qed

lemma float32_ulp_half:
  assumes "1/2 \<le> x" and "x < 1"
  shows "float32_ulp x = 1 / 2 ^ 24"
proof -
  have "float32_ulp x = 2 powr (- 24)"
    by (simp add: float32_ulp_def float32_exponent_half [OF assms])
  also have "\<dots> = 1 / 2 ^ 24" by (simp add: powr_minus_divide powr_realpow [symmetric])
  finally show ?thesis .
qed

lemma float32_eval:
  assumes "0 < x" and "float32_ulp x = u" and "x / u = r" and "round_half_even r = n"
  shows "float32 x = of_int n * u"
  using assms by (simp add: float32_def)

lemma float32_three_quarters: "float32 (3/4) = 3/4"
proof -
  have u: "float32_ulp (3/4) = 1 / 2 ^ 24" by (rule float32_ulp_half) simp_all
  have r: "(3/4 :: real) / (1 / 2 ^ 24) = of_int 12582912" by simp
  have "float32 (3/4) = of_int 12582912 * (1 / 2 ^ 24)"
    by (rule float32_eval [OF _ u r round_half_even_of_int]) simp
  then show ?thesis by simp
qed

lemma float32_rounds_to_one: "float32 (1 - 1 / 2 ^ 30) = 1"
proof -
  have u: "float32_ulp (1 - 1 / 2 ^ 30) = 1 / 2 ^ 24" by (rule float32_ulp_half) simp_all
  have r: "(1 - 1 / 2 ^ 30 :: real) / (1 / 2 ^ 24) = 1073741823 / 64" by simp
  have f: "\<lfloor>1073741823 / 64 :: real\<rfloor> = 16777215" by simp
  have n: "round_half_even (1073741823 / 64) = 16777216"
    by (simp add: round_half_even_def Let_def f)
  have "float32 (1 - 1 / 2 ^ 30) = of_int 16777216 * (1 / 2 ^ 24)"
    by (rule float32_eval [OF _ u r n]) simp
  then show ?thesis by simp
qed

subsection \<open>The result interpreter\<close>

lemma predict_image_row:
  "predict m x = Inr (row # rest) \<Longrightarrow> read_probabilities row = Inr (c, d) \<Longrightarrow>
   predict_image (Some m) x = (Some (format_results c d), [Call_model_predict])"
  by (simp add: predict_image_def predict_image_try_def index_def)

lemma read_probabilities_one: "read_probabilities [p] = Inr (float32 (1 - p), p)"
  by (simp add: read_probabilities_def)

lemma read_probabilities_two: "read_probabilities [a, b] = Inr (a, b)"
  by (simp add: read_probabilities_def index_def)

text \<open>
  C1, as stated, fails at the tie. For the pair \<open>(1 - p, p)\<close> with \<open>p = 1/2\<close> the
  comparison \<open>dog_prob > cat_prob\<close> is false, so \<open>predict_image\<close> returns the label Cat
  although \<open>p < 0.5\<close> does not hold: "Cat if and only if \<open>p < 0.5\<close>" is false there.
\<close>

theorem predict_image_tie_is_cat:
  "\<not> (map_option predicted_class
        (fst (predict_image (Some (const_model [1 - 1/2, 1/2])) [])) = Some ''Cat''
      \<longleftrightarrow> (1/2 :: real) < 1/2)"
  by (simp add: predict_image_def predict_image_try_def index_def read_probabilities_def
      format_results_def const_model_def)

text \<open>
  C1, amended: when the model returns the pair \<open>(1 - p, p)\<close> (cat first, \<open>p\<close> the dog
  probability), \<open>predict_image\<close> succeeds, the label is Dog if and only if \<open>p > 0.5\<close>, it is
  Cat if and only if \<open>p \<le> 0.5\<close> (a tie is a Cat), and the confidence is \<open>max(p, 1 - p)\<close>.
\<close>

theorem predict_image_pair_label:
  assumes "predict m x = Inr ([1 - p, p] # rest)"
  shows "\<exists>r. predict_image (Some m) x = (Some r, [Call_model_predict])
            \<and> (predicted_class r = ''Dog'' \<longleftrightarrow> p > 1/2)
            \<and> (predicted_class r = ''Cat'' \<longleftrightarrow> p \<le> 1/2)
            \<and> confidence r = max p (1 - p)"
proof -
  have "predict_image (Some m) x = (Some (format_results (1 - p) p), [Call_model_predict])"
    using assms read_probabilities_two by (rule predict_image_row)
  moreover have "(predicted_class (format_results (1 - p) p) = ''Dog'') = (p > 1/2)"
    by (auto simp add: format_results_def)
  moreover have "(predicted_class (format_results (1 - p) p) = ''Cat'') = (p \<le> 1/2)"
    by (auto simp add: format_results_def)
  moreover have "confidence (format_results (1 - p) p) = max p (1 - p)"
    by (simp add: format_results_def max.commute)
  ultimately show ?thesis by simp
qed

theorem predict_image_pair_label_witness:
  "predict (const_model [1 - 7/10, 7/10]) [] = Inr ([1 - 7/10, 7/10] # [])
   \<and> (\<exists>r. predict_image (Some (const_model [1 - 7/10, 7/10])) [] = (Some r, [Call_model_predict])
            \<and> (predicted_class r = ''Dog'' \<longleftrightarrow> (7/10::real) > 1/2)
            \<and> (predicted_class r = ''Cat'' \<longleftrightarrow> (7/10::real) \<le> 1/2)
            \<and> confidence r = max (7/10) (1 - 7/10))"
proof -
  have h: "predict (const_model [1 - 7/10, 7/10]) [] = Inr ([1 - 7/10, 7/10] # [])"
    by (simp add: const_model_def)
  show ?thesis using h predict_image_pair_label [OF h] by simp
qed

text \<open>
  C7, as stated, fails in the sigmoid branch: the cat probability is \<open>1 - prob\<close> computed
  in \<open>float32\<close>, which is the exact difference only when that difference is a \<open>float32\<close>.
  For the output \<open>1 / 2 ^ 30\<close> the difference rounds to 1, so the cat probability is 1 and
  the dog probability \<open>1 / 2 ^ 30\<close>: the cat probability is not 1 minus the dog probability,
  and the two values do not sum to 1.
\<close>

theorem sigmoid_complement_is_rounded:
  "predict_image (Some (const_model [1 / 2 ^ 30])) []
     = (Some \<lparr>predicted_class = ''Cat'', confidence = 1, cat_probability = 1,
              dog_probability = 1 / 2 ^ 30,
              all_probabilities = [(''Cat'', 1), (''Dog'', 1 / 2 ^ 30)]\<rparr>,
        [Call_model_predict])
   \<and> cat_probability (format_results (float32 (1 - 1 / 2 ^ 30)) (1 / 2 ^ 30))
       \<noteq> 1 - dog_probability (format_results (float32 (1 - 1 / 2 ^ 30)) (1 / 2 ^ 30))
   \<and> sum_list (map snd (all_probabilities
        (format_results (float32 (1 - 1 / 2 ^ 30)) (1 / 2 ^ 30)))) \<noteq> 1"
proof -
  have "predict (const_model [1 / 2 ^ 30]) [] = Inr ([1 / 2 ^ 30] # [])"
    by (simp add: const_model_def)
  from predict_image_row [OF this read_probabilities_one]
  have "predict_image (Some (const_model [1 / 2 ^ 30])) []
     = (Some (format_results (float32 (1 - 1 / 2 ^ 30)) (1 / 2 ^ 30)), [Call_model_predict])" .
  then show ?thesis unfolding float32_rounds_to_one by (simp add: format_results_def)
qed

text \<open>
  C7, amended: a successful prediction has a mapping with the keys Cat and Dog. In the
  sigmoid branch the dog probability is the output \<open>p\<close> and the cat probability is
  \<open>1 - p\<close> rounded to \<open>float32\<close>, so for \<open>0 \<le> p \<le> 1\<close> the two values sum to 1 within
  \<open>1 / 2 ^ 24\<close>. In the two-element branch the two values are the two outputs, so their sum
  is the sum of the outputs: 1 when the outputs sum to 1. The example is the output
  \<open>1/4\<close>, whose complement is a \<open>float32\<close>.
\<close>

theorem all_probabilities_sum_within_rounding:
  assumes "predict m x = Inr (row # rest)"
    and "row = [p] \<or> row = [a, b]"
  shows "\<exists>r. predict_image (Some m) x = (Some r, [Call_model_predict])
            \<and> map fst (all_probabilities r) = [''Cat'', ''Dog'']
            \<and> map snd (all_probabilities r) = [cat_probability r, dog_probability r]
            \<and> (row = [p] \<longrightarrow>
                 cat_probability r = float32 (1 - p) \<and> dog_probability r = p
                 \<and> (0 \<le> p \<and> p \<le> 1 \<longrightarrow>
                      \<bar>sum_list (map snd (all_probabilities r)) - 1\<bar> \<le> 1 / 2 ^ 24))
            \<and> (row = [a, b] \<longrightarrow>
                 cat_probability r = a \<and> dog_probability r = b
                 \<and> sum_list (map snd (all_probabilities r)) = a + b
                 \<and> (a + b = 1 \<longrightarrow> sum_list (map snd (all_probabilities r)) = 1))"
  using assms(2)
proof
  assume r: "row = [p]"
  have e: "0 \<le> p \<and> p \<le> 1 \<longrightarrow> \<bar>float32 (1 - p) + p - 1\<bar> \<le> 1 / 2 ^ 24"
  proof
    assume "0 \<le> p \<and> p \<le> 1"
    then have "0 \<le> 1 - p" "1 - p \<le> 1" by simp_all
    from float32_unit_error [OF this]
    show "\<bar>float32 (1 - p) + p - 1\<bar> \<le> 1 / 2 ^ 24" by (simp add: algebra_simps)
  qed
  have "predict_image (Some m) x
      = (Some (format_results (float32 (1 - p)) p), [Call_model_predict])"
    using assms(1) read_probabilities_one unfolding r by (rule predict_image_row)
  then show ?thesis using r e by (simp add: format_results_def)
next
  assume r: "row = [a, b]"
  then have "predict m x = Inr ([a, b] # rest)" using assms(1) by simp
  then have "predict_image (Some m) x = (Some (format_results a b), [Call_model_predict])"
    using read_probabilities_two by (rule predict_image_row)
  then show ?thesis using r by (simp add: format_results_def)
qed

theorem all_probabilities_sum_within_rounding_witness:
  "predict (const_model [1/4]) [] = Inr ([1/4] # [])
   \<and> (\<exists>r. predict_image (Some (const_model [1/4])) [] = (Some r, [Call_model_predict])
            \<and> map fst (all_probabilities r) = [''Cat'', ''Dog'']
            \<and> cat_probability r = 3/4 \<and> dog_probability r = 1/4
            \<and> \<bar>sum_list (map snd (all_probabilities r)) - 1\<bar> \<le> 1 / 2 ^ 24)"
proof -
  have h1: "predict (const_model [1/4]) [] = Inr ([1/4] # [])"
    by (simp add: const_model_def)
  have h2: "[1/4] = [1/4 :: real] \<or> [1/4] = [0, 0 :: real]" by simp
  have f: "float32 (1 - 1/4) = 3/4" using float32_three_quarters by simp
  from all_probabilities_sum_within_rounding [OF h1 h2]
  obtain r where "predict_image (Some (const_model [1/4])) [] = (Some r, [Call_model_predict])"
    and "map fst (all_probabilities r) = [''Cat'', ''Dog'']"
    and "cat_probability r = float32 (1 - 1/4)" and "dog_probability r = 1/4"
    and "\<bar>sum_list (map snd (all_probabilities r)) - 1\<bar> \<le> 1 / 2 ^ 24"
    by auto
  then have "\<exists>r. predict_image (Some (const_model [1/4])) [] = (Some r, [Call_model_predict])
            \<and> map fst (all_probabilities r) = [''Cat'', ''Dog'']
            \<and> cat_probability r = 3/4 \<and> dog_probability r = 1/4
            \<and> \<bar>sum_list (map snd (all_probabilities r)) - 1\<bar> \<le> 1 / 2 ^ 24"
    using f by auto
  with h1 show ?thesis by (intro conjI)
qed

text \<open>
  C8: a successful prediction over a complementary pair (the row \<open>[p]\<close> of the sigmoid
  branch or the row \<open>[1 - p, p]\<close>, with \<open>0 \<le> p \<le> 1\<close>) has a label in \<open>{Cat, Dog}\<close> and a
  confidence in \<open>[0.5, 1]\<close>.
\<close>

theorem prediction_label_and_confidence_range:
  assumes "predict m x = Inr (row # rest)"
    and "row = [p] \<or> row = [1 - p, p]"
    and "0 \<le> p" and "p \<le> 1"
  shows "\<exists>r. predict_image (Some m) x = (Some r, [Call_model_predict])
            \<and> predicted_class r \<in> {''Cat'', ''Dog''}
            \<and> 1/2 \<le> confidence r \<and> confidence r \<le> 1"
  using assms(2)
proof
  assume r: "row = [p]"
  let ?c = "float32 (1 - p)"
  have i: "0 \<le> 1 - p" "1 - p \<le> 1" using assms(3,4) by simp_all
  have c: "0 \<le> ?c" "?c \<le> 1" by (rule float32_unit_interval(1,2) [OF i])+
  have h: "1/2 \<le> max ?c p"
  proof (cases "1/2 \<le> p")
    case True
    then show ?thesis by (simp add: max_def)
  next
    case False
    then have "1/2 \<le> 1 - p" by simp
    from float32_unit_interval(3) [OF i this] show ?thesis by (simp add: max_def)
  qed
  have "predict_image (Some m) x = (Some (format_results ?c p), [Call_model_predict])"
    using assms(1) read_probabilities_one unfolding r by (rule predict_image_row)
  moreover have "predicted_class (format_results ?c p) \<in> {''Cat'', ''Dog''}"
    by (simp add: format_results_def)
  moreover have "1/2 \<le> confidence (format_results ?c p)"
    using h by (simp add: format_results_def)
  moreover have "confidence (format_results ?c p) \<le> 1"
    using c assms(4) by (simp add: format_results_def)
  ultimately show ?thesis by simp
next
  assume r: "row = [1 - p, p]"
  then have "predict m x = Inr ([1 - p, p] # rest)" using assms(1) by simp
  then have "predict_image (Some m) x = (Some (format_results (1 - p) p), [Call_model_predict])"
    using read_probabilities_two by (rule predict_image_row)
  moreover have "predicted_class (format_results (1 - p) p) \<in> {''Cat'', ''Dog''}"
    by (simp add: format_results_def)
  moreover have "1/2 \<le> confidence (format_results (1 - p) p)"
    by (simp add: format_results_def max_def)
  moreover have "confidence (format_results (1 - p) p) \<le> 1"
    using assms(3,4) by (simp add: format_results_def)
  ultimately show ?thesis by simp
qed

theorem prediction_label_and_confidence_range_witness:
  "predict (const_model [2/10]) [] = Inr ([2/10] # [])
   \<and> ([2/10] = [2/10 :: real] \<or> [2/10] = [1 - 2/10, 2/10 :: real])
   \<and> (0::real) \<le> 2/10 \<and> (2/10 :: real) \<le> 1
   \<and> (\<exists>r. predict_image (Some (const_model [2/10])) [] = (Some r, [Call_model_predict])
            \<and> predicted_class r \<in> {''Cat'', ''Dog''}
            \<and> 1/2 \<le> confidence r \<and> confidence r \<le> 1)"
proof -
  have h1: "predict (const_model [2/10]) [] = Inr ([2/10] # [])"
    by (simp add: const_model_def)
  have h2: "[2/10] = [2/10 :: real] \<or> [2/10] = [1 - 2/10, 2/10 :: real]" by simp
  have h3: "(0::real) \<le> 2/10" and h4: "(2/10 :: real) \<le> 1" by simp_all
  show ?thesis
    using h1 h2 h3 h4 prediction_label_and_confidence_range [OF h1 h2 h3 h4]
    by (intro conjI)
qed

subsection \<open>The image normalizer\<close>

lemma split_example: "split CHR ''.'' ''my.cat.JPG'' = [''my'', ''cat'', ''JPG'']"
  by simp

lemma file_extension_oversized_jpg: "file_extension oversized_jpg = ''jpg''"
  by (simp add: file_extension_def oversized_jpg_def lower_def lower_char_def)


lemma validate_image_rejects:
  assumes "file_extension f \<notin> set ALLOWED_EXTENSIONS \<or> file_size f > 10 * 1024 * 1024"
  shows "validate_image (Some f) =
           (False,
            [Error (if file_extension f \<notin> set ALLOWED_EXTENSIONS
                    then ''Unsupported file format. Please upload: jpg, jpeg, png, bmp''
                    else ''File too large. Please upload an image smaller than 10MB.'')])"
  using assms by (auto simp add: validate_image_def ALLOWED_EXTENSIONS_def)

lemma render_image_display_invalid:
  "validate_image (Some f) = (False, evs) \<Longrightarrow>
   render_image_display p f s =
     ((None, None),
      evs @ [Error ''Invalid image file. Please upload a valid JPG, PNG, or BMP image.''])"
  by (simp add: render_image_display_def)

text \<open>
  C2: a file whose extension (the text after the last dot of its name, lowered) is not
  one of jpg, jpeg, png, bmp, or whose size exceeds \<open>10 * 1024 * 1024\<close> bytes, is rejected:
  \<open>validate_image\<close> returns False and reports one error, which is the size error when
  the extension is allowed; \<open>render_image_display\<close> returns \<open>(None, None)\<close>, adds its own
  error and never reaches \<open>preprocess_image\<close>, so \<open>Image.open\<close> is not called. The witness
  is a 10.5 MiB JPEG.
\<close>

theorem invalid_upload_rejected_before_decoding:
  assumes "file_extension f \<notin> set ALLOWED_EXTENSIONS \<or> file_size f > 10 * 1024 * 1024"
  shows "fst (validate_image (Some f)) = False
       \<and> (\<exists>msg. snd (validate_image (Some f)) = [Error msg])
       \<and> (file_extension f \<in> set ALLOWED_EXTENSIONS \<longrightarrow>
            snd (validate_image (Some f))
              = [Error ''File too large. Please upload an image smaller than 10MB.''])
       \<and> fst (render_image_display p f s) = (None, None)
       \<and> snd (render_image_display p f s)
           = snd (validate_image (Some f))
             @ [Error ''Invalid image file. Please upload a valid JPG, PNG, or BMP image.'']
       \<and> Call_Image_open (file_name f) \<notin> set (snd (render_image_display p f s))
       \<and> Spinner ''Processing image...'' \<notin> set (snd (render_image_display p f s))"
proof -
  note v = validate_image_rejects [OF assms]
  note r = render_image_display_invalid [OF v]
  show ?thesis unfolding r unfolding v by simp
qed

theorem invalid_upload_rejected_before_decoding_witness:
  "file_extension oversized_jpg = ''jpg''
   \<and> file_size oversized_jpg > 10 * 1024 * 1024
   \<and> validate_image (Some oversized_jpg)
       = (False, [Error ''File too large. Please upload an image smaller than 10MB.''])
   \<and> fst (render_image_display nearest_pil oversized_jpg default_settings) = (None, None)
   \<and> Call_Image_open (file_name oversized_jpg)
        \<notin> set (snd (render_image_display nearest_pil oversized_jpg default_settings))"
proof -
  have e: "file_extension oversized_jpg \<in> set ALLOWED_EXTENSIONS"
    by (simp add: file_extension_oversized_jpg ALLOWED_EXTENSIONS_def)
  have h: "file_extension oversized_jpg \<notin> set ALLOWED_EXTENSIONS
      \<or> file_size oversized_jpg > 10 * 1024 * 1024"
    by (simp add: oversized_jpg_def)
  from invalid_upload_rejected_before_decoding [OF h, of nearest_pil default_settings] e
  have "fst (validate_image (Some oversized_jpg)) = False"
    and "snd (validate_image (Some oversized_jpg))
       = [Error ''File too large. Please upload an image smaller than 10MB.'']"
    and "fst (render_image_display nearest_pil oversized_jpg default_settings) = (None, None)"
    and "Call_Image_open (file_name oversized_jpg)
        \<notin> set (snd (render_image_display nearest_pil oversized_jpg default_settings))"
    by simp_all
  then show ?thesis
    by (simp add: prod_eq_iff file_extension_oversized_jpg) (simp add: oversized_jpg_def)
qed


lemma length_caffe_pixel: "3 \<le> length px \<Longrightarrow> length (caffe_pixel px) = length px"
  by (simp add: caffe_pixel_def Let_def)

lemma np_array_shape:
  "length (np_array img) = height img
   \<and> list_all (\<lambda>row. length row = width img
        \<and> list_all (\<lambda>px. length px = getbands (mode img)) row) (np_array img)"
  by (simp add: np_array_def list_all_iff)

lemma preprocess_input_shape:
  assumes "has_shape (n, h, w, c) x" and "3 \<le> c"
  shows "\<exists>t. preprocess_input x = Inr t \<and> has_shape (n, h, w, c) t"
proof -
  have ok: "list_all (list_all (list_all (\<lambda>px. 3 \<le> length px))) x"
    using assms by (auto simp add: has_shape_def list_all_iff)
  have "has_shape (n, h, w, c) (map (map (map caffe_pixel)) x)"
    using assms by (auto simp add: has_shape_def list_all_iff length_caffe_pixel)
  with ok show ?thesis by (simp add: preprocess_input_def)
qed

lemma resized_rgb_shape:
  assumes "mode img = ''RGB''"
  shows "has_shape (1, 224, 224, 3) (expand_dims0 (np_array (resize p img IMAGE_SIZE)))"
proof -
  let ?r = "resize p img IMAGE_SIZE"
  have "mode ?r = ''RGB''" "width ?r = 224" "height ?r = 224"
    using assms by (simp_all add: resize_def IMAGE_SIZE_def)
  moreover have "getbands ''RGB'' = 3" by (simp add: getbands_def)
  ultimately show ?thesis
    using np_array_shape [of ?r] by (simp add: has_shape_def expand_dims0_def)
qed

lemma preprocess_image_try_shape:
  assumes "image_open p f = Inr img"
  shows "\<exists>t orig. preprocess_image_try p f = Inr (t, orig) \<and> has_shape (1, 224, 224, 3) t
            \<and> mode orig = ''RGB'' \<and> width orig = width img \<and> height orig = height img"
proof -
  define rgb where "rgb = (if mode img \<noteq> ''RGB'' then convert p img ''RGB'' else img)"
  have m: "mode rgb = ''RGB''" and w: "width rgb = width img" and h: "height rgb = height img"
    by (simp_all add: rgb_def convert_def)
  from resized_rgb_shape [OF m, of p] preprocess_input_shape
  obtain t where t: "preprocess_input (expand_dims0 (np_array (resize p rgb IMAGE_SIZE))) = Inr t"
    and s: "has_shape (1, 224, 224, 3) t"
    by (metis le_refl)
  have "preprocess_image_try p f = Inr (t, rgb)"
    using assms t by (simp add: preprocess_image_try_def Let_def rgb_def)
  with s m w h show ?thesis by blast
qed

text \<open>
  C3: whenever \<open>Image.open\<close> decodes the file, whatever the mode and the size of the image
  and whatever the resampling filter computes, \<open>preprocess_image\<close> returns a tensor of
  shape \<open>(1, 224, 224, 3)\<close>, and \<open>render_image_display\<close> hands that tensor on when the file
  passed validation. The witness is a 500 by 300 RGBA PNG.
\<close>

theorem preprocess_image_target_shape:
  assumes "image_open p f = Inr img"
  shows "\<exists>t orig. preprocess_image p f = ((Some t, Some orig), [Call_Image_open (file_name f)])
            \<and> has_shape (1, 224, 224, 3) t
            \<and> (fst (validate_image (Some f)) \<longrightarrow>
                 fst (render_image_display p f s) = (Some t, Some orig))"
proof -
  from preprocess_image_try_shape [OF assms]
  obtain t orig where a: "preprocess_image_try p f = Inr (t, orig)"
    and b: "has_shape (1, 224, 224, 3) t" by blast
  have c: "preprocess_image p f = ((Some t, Some orig), [Call_Image_open (file_name f)])"
    using a by (simp add: preprocess_image_def)
  have "fst (validate_image (Some f)) \<longrightarrow>
          fst (render_image_display p f s) = (Some t, Some orig)"
    using c by (cases "validate_image (Some f)") (simp add: render_image_display_def)
  with b c show ?thesis by blast
qed

lemma validate_image_garden_png: "validate_image (Some garden_png) = (True, [])"
  by (simp add: validate_image_def garden_png_def file_extension_def lower_def lower_char_def
      ALLOWED_EXTENSIONS_def)

theorem preprocess_image_target_shape_witness:
  "image_open nearest_pil garden_png = Inr rgba_500x300
   \<and> width rgba_500x300 = 500 \<and> height rgba_500x300 = 300
   \<and> fst (validate_image (Some garden_png))
   \<and> (\<exists>t orig. preprocess_image nearest_pil garden_png
                  = ((Some t, Some orig), [Call_Image_open ''garden.png''])
            \<and> has_shape (1, 224, 224, 3) t
            \<and> fst (render_image_display nearest_pil garden_png default_settings) = (Some t, Some orig))"
proof -
  have h: "image_open nearest_pil garden_png = Inr rgba_500x300"
    by (simp add: nearest_pil_def)
  have v: "fst (validate_image (Some garden_png))" by (simp add: validate_image_garden_png)
  have n: "file_name garden_png = ''garden.png''" by (simp add: garden_png_def)
  from preprocess_image_target_shape [OF h, of default_settings] v n
  have "\<exists>t orig. preprocess_image nearest_pil garden_png
                  = ((Some t, Some orig), [Call_Image_open ''garden.png''])
            \<and> has_shape (1, 224, 224, 3) t
            \<and> fst (render_image_display nearest_pil garden_png default_settings) = (Some t, Some orig)"
    by simp
  with h v show ?thesis by (simp add: rgba_500x300_def)
qed

lemma preprocess_input_result:
  assumes "has_shape (n, h, w, c) x" and "3 \<le> c"
  shows "preprocess_input x = Inr (map (map (map caffe_pixel)) x)"
proof -
  have "list_all (list_all (list_all (\<lambda>px. 3 \<le> length px))) x"
    using assms by (auto simp add: has_shape_def list_all_iff)
  then show ?thesis by (simp add: preprocess_input_def)
qed

lemma preprocess_image_try_garden_png:
  "preprocess_image_try nearest_pil garden_png
     = Inr (garden_tensor, convert nearest_pil rgba_500x300 ''RGB'')"
proof -
  have o: "image_open nearest_pil garden_png = Inr rgba_500x300"
    by (simp add: nearest_pil_def)
  have m: "mode rgba_500x300 \<noteq> ''RGB''" by (simp add: rgba_500x300_def)
  have "mode (convert nearest_pil rgba_500x300 ''RGB'') = ''RGB''" by (simp add: convert_def)
  from preprocess_input_result [OF resized_rgb_shape [OF this, of nearest_pil]]
  have "preprocess_input
          (expand_dims0 (np_array (resize nearest_pil (convert nearest_pil rgba_500x300 ''RGB'')
             IMAGE_SIZE))) = Inr garden_tensor"
    by (simp add: garden_tensor_def)
  then show ?thesis using o m by (simp add: preprocess_image_try_def Let_def)
qed






subsection \<open>A prediction attempt of a loaded session\<close>

lemma predict_and_show_failed:
  "predict_image mo x = (None, evs) \<Longrightarrow>
   predict_and_show mo x s ss
     = (Raise none_type_error, ss, Spinner ''Analyzing image... Please wait!'' # evs)"
  by (simp add: predict_and_show_def none_type_error_def)

lemma main_prediction_attempt:
  assumes "ss_model ss = Some (Some m)" and "ss_model_loaded ss = Some True"
    and "fst (model_dashboard (Some m)) = Inr ()"
    and "file_uploader inp = Some f" and "fst (validate_image (Some f))"
    and "preprocess_image_try (pil_lib e) f = Inr (t, orig)" and "button_clicked inp"
  shows "main e inp ss
     = (case predict_and_show (Some m) t
               \<lparr>confidence_threshold = slider_confidence_threshold inp,
                show_probabilities = toggle_show_probabilities inp,
                show_image_info = toggle_show_image_info inp,
                show_processing_steps = toggle_show_processing_steps inp,
                theme = theme_choice inp\<rparr>
               (init_stats ss) of
          (c, ss3, evs4) \<Rightarrow>
            (c, ss3,
             snd (model_dashboard (Some m))
             @ [Spinner ''Processing image...'', Call_Image_open (file_name f),
                Success ''Image processed successfully!'']
             @ evs4))"
proof -
  have i: "init_session ss = ss" using assms(1,2) by (simp add: init_session_def)
  have l: "load_on_first_run e ss = (True, ss, [])"
    using assms(2) by (simp add: load_on_first_run_def)
  have m: "session_model ss = Some m" "session_model (init_stats ss) = Some m"
    using assms(1) by (simp_all add: session_model_def init_stats_def Let_def)
  obtain evs where d: "model_dashboard (Some m) = (Inr (), evs)"
    using assms(3) by (cases "model_dashboard (Some m)") auto
  have p: "preprocess_image (pil_lib e) f
      = ((Some t, Some orig), [Call_Image_open (file_name f)])"
    using assms(6) by (simp add: preprocess_image_def)
  have v: "validate_image (Some f) = (True, [])"
    using assms(5) by (auto simp add: validate_image_def split: if_splits)
  have r: "render_image_display (pil_lib e) f s
      = ((Some t, Some orig),
         [Spinner ''Processing image...'', Call_Image_open (file_name f),
          Success ''Image processed successfully!''])" for s
    by (simp add: render_image_display_def v p)
  show ?thesis
    by (simp add: main_def i l m d r render_sidebar_def assms(4,7) case_prod_beta)
qed

lemma predict_image_failure_events:
  assumes "predict_image (Some m) t = (None, evs)"
  shows "\<exists>x. predict_image_try m t = Inl x
           \<and> evs = [Call_model_predict, Error (''Error making prediction: '' @ str x)]"
  using assms by (cases "predict_image_try m t") (simp_all add: predict_image_def)

lemma model_dashboard_failing_model: "model_dashboard (Some failing_model) = (Inr (), [])"
  by (simp add: model_dashboard_def get_model_info_def failing_model_def)

lemma model_dashboard_const_model: "model_dashboard (Some (const_model row)) = (Inr (), [])"
  by (simp add: model_dashboard_def get_model_info_def const_model_def)

lemma predict_image_failing_model:
  "predict_image (Some failing_model) t
     = (None, [Call_model_predict, Error ''Error making prediction: Graph execution error''])"
  by (simp add: predict_image_def predict_image_try_def failing_model_def)

lemma init_stats_loaded_session [simp]: "init_stats (loaded_session m) = loaded_session m"
  by (simp add: init_stats_def loaded_session_def)

lemma predict_image_const_model_dog:
  "predict_image (Some (const_model [7/10])) t
     = (Some (format_results (float32 (3/10)) (7/10)), [Call_model_predict])"
proof -
  have "predict (const_model [7/10]) t = Inr ([7/10] # [])" by (simp add: const_model_def)
  from predict_image_row [OF this, of "float32 (3/10)" "7/10"] read_probabilities_one [of "7/10"]
  show ?thesis by simp
qed

lemma main_const_model_dog:
  "main (env_with (const_model [7/10])) (upload_and_click_at t) (loaded_session (const_model [7/10]))
     = (Return,
        (loaded_session (const_model [7/10]))\<lparr>predictions_made := Some 4, dogs_detected := Some 3\<rparr>,
        [Spinner ''Processing image...'', Call_Image_open ''garden.png'',
         Success ''Image processed successfully!'',
         Spinner ''Analyzing image... Please wait!'', Call_model_predict]
        @ (if 7/10 \<ge> t
           then [HighConfidenceCard ''Dog'' (7/10), Success ''High confidence prediction!'']
           else [UncertainCard ''Dog'' (7/10) t,
                 Warning ''Low confidence prediction. Consider uploading a clearer image.''])
        @ [ProbabilitySection [(''Cat'', float32 (3/10)), (''Dog'', 7/10)]]
        @ (if 7/10 \<ge> t then [Balloons]
           else [Error ''Failed to make prediction. Please try again.'']))"
proof -
  let ?m = "const_model [7/10]"
  have a: "ss_model (loaded_session ?m) = Some (Some ?m)"
    "ss_model_loaded (loaded_session ?m) = Some True"
    by (simp_all add: loaded_session_def)
  have b: "fst (model_dashboard (Some ?m)) = Inr ()"
    by (simp add: model_dashboard_const_model)
  have c: "file_uploader (upload_and_click_at t) = Some garden_png"
    "button_clicked (upload_and_click_at t)"
    by (simp_all add: upload_and_click_at_def upload_and_click_def)
  have d: "fst (validate_image (Some garden_png))" by (simp add: validate_image_garden_png)
  have p: "preprocess_image_try (pil_lib (env_with ?m)) garden_png
      = Inr (garden_tensor, convert nearest_pil rgba_500x300 ''RGB'')"
    by (simp add: env_with_def preprocess_image_try_garden_png)
  have n: "file_name garden_png = ''garden.png''" by (simp add: garden_png_def)
  have "float32 (3/10) \<le> 1/2" by (rule float32_unit_interval(4)) simp_all
  then have f: "predicted_class (format_results (float32 (3/10)) (7/10)) = ''Dog''"
    "confidence (format_results (float32 (3/10)) (7/10)) = 7/10"
    "all_probabilities (format_results (float32 (3/10)) (7/10))
       = [(''Cat'', float32 (3/10)), (''Dog'', 7/10)]"
    by (simp_all add: format_results_def)
  have u: "update_statistics (format_results (float32 (3/10)) (7/10)) (loaded_session ?m)
      = Inr ((loaded_session ?m)\<lparr>predictions_made := Some 4, dogs_detected := Some 3\<rparr>)"
    by (simp add: update_statistics_def f loaded_session_def Let_def)
  show ?thesis
    unfolding main_prediction_attempt [OF a b c(1) d p c(2)]
    by (simp add: predict_and_show_def predict_image_const_model_dog
        render_prediction_results_def u result_display_def f n model_dashboard_const_model
        upload_and_click_at_def upload_and_click_def)
qed

subsection \<open>What a page shows, and the confidence threshold\<close>

lemma shown_results_append [simp]:
  "shown_results (xs @ ys) = shown_results xs @ shown_results ys"
  by (simp add: shown_results_def)

lemma shown_results_Cons [simp]:
  "shown_results (x # xs) = shown_result x @ shown_results xs"
  by (simp add: shown_results_def)

lemma shown_results_Nil [simp]: "shown_results [] = []"
  by (simp add: shown_results_def)

lemma shown_probabilities_append [simp]:
  "shown_probabilities (xs @ ys) = shown_probabilities xs @ shown_probabilities ys"
  by (simp add: shown_probabilities_def)

lemma shown_probabilities_Cons [simp]:
  "shown_probabilities (x # xs) = shown_probability x @ shown_probabilities xs"
  by (simp add: shown_probabilities_def)

lemma shown_probabilities_Nil [simp]: "shown_probabilities [] = []"
  by (simp add: shown_probabilities_def)

lemma render_sidebar_threshold:
  "render_sidebar mo (inp\<lparr>slider_confidence_threshold := t\<rparr>) ss =
     (case render_sidebar mo inp ss of
        (Inl x, ss', evs) \<Rightarrow> (Inl x, ss', evs)
      | (Inr s, ss', evs) \<Rightarrow> (Inr (s\<lparr>confidence_threshold := t\<rparr>), ss', evs))"
  by (simp add: render_sidebar_def split: prod.splits sum.splits)

lemma render_image_display_threshold:
  "render_image_display p f (s\<lparr>confidence_threshold := t\<rparr>) = render_image_display p f s"
  by (simp add: render_image_display_def)

lemma result_display_threshold:
  "shown_results (result_display r (s\<lparr>confidence_threshold := t\<rparr>)) = [(predicted_class r, confidence r)]
   \<and> shown_probabilities (result_display r (s\<lparr>confidence_threshold := t\<rparr>))
       = (if show_probabilities s then [all_probabilities r] else [])"
  by (simp add: result_display_def)

lemma result_display_shown:
  "shown_results (result_display r s) = [(predicted_class r, confidence r)]
   \<and> shown_probabilities (result_display r s)
       = (if show_probabilities s then [all_probabilities r] else [])"
  by (simp add: result_display_def)

lemma shown_predict_image:
  "shown_results (snd (predict_image mo x)) = [] \<and> shown_probabilities (snd (predict_image mo x)) = []"
  by (simp add: predict_image_def split: option.splits sum.splits)

lemma predict_and_show_threshold:
  "outcome (predict_and_show mo x (s\<lparr>confidence_threshold := t\<rparr>) ss)
     = outcome (predict_and_show mo x s ss)"
  using shown_predict_image [of mo x]
  by (auto simp add: outcome_def predict_and_show_def render_prediction_results_def
      result_display_def Let_def
      split: prod.splits option.splits sum.splits)

lemma predict_and_show_threshold_simps [simp]:
  "fst (predict_and_show mo x (s\<lparr>confidence_threshold := t\<rparr>) ss) = fst (predict_and_show mo x s ss)"
  "fst (snd (predict_and_show mo x (s\<lparr>confidence_threshold := t\<rparr>) ss))
     = fst (snd (predict_and_show mo x s ss))"
  "shown_results (snd (snd (predict_and_show mo x (s\<lparr>confidence_threshold := t\<rparr>) ss)))
     = shown_results (snd (snd (predict_and_show mo x s ss)))"
  "shown_probabilities (snd (snd (predict_and_show mo x (s\<lparr>confidence_threshold := t\<rparr>) ss)))
     = shown_probabilities (snd (snd (predict_and_show mo x s ss)))"
  using predict_and_show_threshold [of mo x t s ss] by (simp_all add: outcome_def)

lemma main_threshold:
  "outcome (main e (inp\<lparr>slider_confidence_threshold := t\<rparr>) ss) = outcome (main e inp ss)"
proof -
  obtain b ss1 evs1 where L: "load_on_first_run e (init_session ss) = (b, ss1, evs1)"
    by (cases "load_on_first_run e (init_session ss)") auto
  obtain r ss2 evs2 where S: "render_sidebar (session_model ss1) inp ss1 = (r, ss2, evs2)"
    by (cases "render_sidebar (session_model ss1) inp ss1") auto
  show ?thesis
  proof (cases b)
    case False
    then show ?thesis using L by (simp add: main_def)
  next
    case True
    show ?thesis
    proof (cases r)
      case (Inl x)
      then show ?thesis using L S True by (simp add: main_def render_sidebar_threshold)
    next
      case (Inr s)
      show ?thesis
      proof (cases "file_uploader inp")
        case None
        then show ?thesis using L S True Inr by (simp add: main_def render_sidebar_threshold)
      next
        case (Some f)
        obtain po oo evs3 where D: "render_image_display (pil_lib e) f s = ((po, oo), evs3)"
          by (cases "render_image_display (pil_lib e) f s") auto
        show ?thesis
          using L S True Inr Some D
          by (cases po)
            (simp_all add: main_def render_sidebar_threshold render_image_display_threshold
              outcome_def case_prod_beta)
      qed
    qed
  qed
qed

lemma script_session: "fst (script e inp ss) = fst (snd (main e inp ss))"
  by (simp add: script_def split: prod.splits control.splits)

lemma script_shown:
  "shown_results (snd (script e inp ss)) = shown_results (snd (snd (main e inp ss)))
   \<and> shown_probabilities (snd (script e inp ss)) = shown_probabilities (snd (snd (main e inp ss)))"
  by (simp add: script_def split: prod.splits control.splits)

text \<open>
  C6: two runs of \<open>main\<close> (and of the script) that differ only in the position of the
  confidence-threshold slider end in the same way, leave the same session state (so count
  the same label) and show the same label, the same confidence and the same per-class
  probabilities. The tensor handed to \<open>predict_image\<close> is the same, and
  \<open>predict_image\<close> takes the model and the tensor only. Whatever the threshold, the
  result display shows the label and the confidence of the result it is given; the
  threshold chooses between the two cards. In the example a dog probability of 0.7 is shown
  as a high-confidence card at threshold 0.6 and as an uncertain card at threshold 0.95.
\<close>

theorem confidence_threshold_only_affects_display:
  "outcome (main e (inp\<lparr>slider_confidence_threshold := t1\<rparr>) ss)
     = outcome (main e (inp\<lparr>slider_confidence_threshold := t2\<rparr>) ss)
   \<and> fst (script e (inp\<lparr>slider_confidence_threshold := t1\<rparr>) ss)
       = fst (script e (inp\<lparr>slider_confidence_threshold := t2\<rparr>) ss)
   \<and> shown_results (snd (script e (inp\<lparr>slider_confidence_threshold := t1\<rparr>) ss))
       = shown_results (snd (script e (inp\<lparr>slider_confidence_threshold := t2\<rparr>) ss))
   \<and> shown_probabilities (snd (script e (inp\<lparr>slider_confidence_threshold := t1\<rparr>) ss))
       = shown_probabilities (snd (script e (inp\<lparr>slider_confidence_threshold := t2\<rparr>) ss))
   \<and> render_image_display p f (s\<lparr>confidence_threshold := t1\<rparr>)
       = render_image_display p f (s\<lparr>confidence_threshold := t2\<rparr>)
   \<and> outcome (predict_and_show mo x (s\<lparr>confidence_threshold := t1\<rparr>) ss)
       = outcome (predict_and_show mo x (s\<lparr>confidence_threshold := t2\<rparr>) ss)
   \<and> shown_results (result_display r (s\<lparr>confidence_threshold := t1\<rparr>))
       = [(predicted_class r, confidence r)]
   \<and> shown_probabilities (result_display r (s\<lparr>confidence_threshold := t1\<rparr>))
       = (if show_probabilities s then [all_probabilities r] else [])"
proof -
  have m: "outcome (main e (inp\<lparr>slider_confidence_threshold := t1\<rparr>) ss)
     = outcome (main e (inp\<lparr>slider_confidence_threshold := t2\<rparr>) ss)"
    by (simp add: main_threshold)
  then have m': "fst (snd (main e (inp\<lparr>slider_confidence_threshold := t1\<rparr>) ss))
       = fst (snd (main e (inp\<lparr>slider_confidence_threshold := t2\<rparr>) ss))"
    "shown_results (snd (snd (main e (inp\<lparr>slider_confidence_threshold := t1\<rparr>) ss)))
       = shown_results (snd (snd (main e (inp\<lparr>slider_confidence_threshold := t2\<rparr>) ss)))"
    "shown_probabilities (snd (snd (main e (inp\<lparr>slider_confidence_threshold := t1\<rparr>) ss)))
       = shown_probabilities (snd (snd (main e (inp\<lparr>slider_confidence_threshold := t2\<rparr>) ss)))"
    by (simp_all add: outcome_def)
  have s: "fst (script e (inp\<lparr>slider_confidence_threshold := t1\<rparr>) ss)
       = fst (script e (inp\<lparr>slider_confidence_threshold := t2\<rparr>) ss)"
    "shown_results (snd (script e (inp\<lparr>slider_confidence_threshold := t1\<rparr>) ss))
       = shown_results (snd (script e (inp\<lparr>slider_confidence_threshold := t2\<rparr>) ss))"
    "shown_probabilities (snd (script e (inp\<lparr>slider_confidence_threshold := t1\<rparr>) ss))
       = shown_probabilities (snd (script e (inp\<lparr>slider_confidence_threshold := t2\<rparr>) ss))"
    using m' by (simp_all add: script_session script_shown)
  have d: "render_image_display p f (s\<lparr>confidence_threshold := t1\<rparr>)
       = render_image_display p f (s\<lparr>confidence_threshold := t2\<rparr>)"
    by (simp add: render_image_display_threshold)
  have q: "outcome (predict_and_show mo x (s\<lparr>confidence_threshold := t1\<rparr>) ss)
       = outcome (predict_and_show mo x (s\<lparr>confidence_threshold := t2\<rparr>) ss)"
    by (simp add: predict_and_show_threshold)
  from m s d q result_display_threshold [where r = r and s = s and t = t1] show ?thesis by simp
qed

theorem confidence_threshold_only_affects_display_witness:
  "outcome (main (env_with (const_model [7/10])) (upload_and_click_at (6/10))
              (loaded_session (const_model [7/10])))
     = outcome (main (env_with (const_model [7/10])) (upload_and_click_at (95/100))
                  (loaded_session (const_model [7/10])))
   \<and> shown_results (snd (snd (main (env_with (const_model [7/10])) (upload_and_click_at (6/10))
                                  (loaded_session (const_model [7/10])))))
       = [(''Dog'', 7/10)]
   \<and> shown_results (snd (snd (main (env_with (const_model [7/10])) (upload_and_click_at (95/100))
                                  (loaded_session (const_model [7/10])))))
       = [(''Dog'', 7/10)]
   \<and> HighConfidenceCard ''Dog'' (7/10)
       \<in> set (snd (snd (main (env_with (const_model [7/10])) (upload_and_click_at (6/10))
                           (loaded_session (const_model [7/10])))))
   \<and> UncertainCard ''Dog'' (7/10) (95/100)
       \<in> set (snd (snd (main (env_with (const_model [7/10])) (upload_and_click_at (95/100))
                           (loaded_session (const_model [7/10])))))"
proof -
  have "outcome (main (env_with (const_model [7/10])) (upload_and_click_at (6/10))
              (loaded_session (const_model [7/10])))
     = outcome (main (env_with (const_model [7/10])) (upload_and_click_at (95/100))
                  (loaded_session (const_model [7/10])))"
    using confidence_threshold_only_affects_display
      [where e = "env_with (const_model [7/10])" and inp = upload_and_click and ?t1.0 = "6/10"
         and ss = "loaded_session (const_model [7/10])" and ?t2.0 = "95/100"]
    by (simp add: upload_and_click_at_def)
  then show ?thesis by (simp add: main_const_model_dog)
qed

subsection \<open>A failed prediction\<close>

text \<open>
  C4: a prediction attempt in which \<open>predict_image\<close> returns \<open>None\<close>. \<open>predict_image\<close>
  has written its own error message, and then \<open>main\<close> raises TypeError at
  \<open>results['confidence']\<close> (line 122), which \<open>main\<close> does not catch: the run ends in the
  handler of the script, which writes the application error. The message of line 126 is not
  written. The example is a loaded model whose \<open>predict\<close> raises.
\<close>

theorem failed_inference_raises_in_main:
  assumes "ss_model ss = Some (Some m)" and "ss_model_loaded ss = Some True"
    and "fst (model_dashboard (Some m)) = Inr ()"
    and "file_uploader inp = Some f" and "fst (validate_image (Some f))"
    and "preprocess_image_try (pil_lib e) f = Inr (t, orig)" and "button_clicked inp"
    and "predict_image (Some m) t = (None, evs)"
  shows "(\<exists>x. predict_image_try m t = Inl x
            \<and> evs = [Call_model_predict, Error (''Error making prediction: '' @ str x)])
       \<and> main e inp ss
           = (Raise none_type_error, init_stats ss,
              snd (model_dashboard (Some m))
              @ [Spinner ''Processing image...'', Call_Image_open (file_name f),
                 Success ''Image processed successfully!'',
                 Spinner ''Analyzing image... Please wait!'']
              @ evs)
       \<and> script e inp ss
           = (init_stats ss,
              snd (model_dashboard (Some m))
              @ [Spinner ''Processing image...'', Call_Image_open (file_name f),
                 Success ''Image processed successfully!'',
                 Spinner ''Analyzing image... Please wait!'']
              @ evs
              @ [Error (''Application Error: '' @ str none_type_error),
                 Error ''Please refresh the page or contact support if the problem persists.''])"
proof -
  have m: "main e inp ss
           = (Raise none_type_error, init_stats ss,
              snd (model_dashboard (Some m))
              @ [Spinner ''Processing image...'', Call_Image_open (file_name f),
                 Success ''Image processed successfully!'',
                 Spinner ''Analyzing image... Please wait!'']
              @ evs)"
    by (simp add: main_prediction_attempt [OF assms(1-7)] predict_and_show_failed [OF assms(8)])
  have "script e inp ss
           = (init_stats ss,
              snd (model_dashboard (Some m))
              @ [Spinner ''Processing image...'', Call_Image_open (file_name f),
                 Success ''Image processed successfully!'',
                 Spinner ''Analyzing image... Please wait!'']
              @ evs
              @ [Error (''Application Error: '' @ str none_type_error),
                 Error ''Please refresh the page or contact support if the problem persists.''])"
    by (simp add: script_def m)
  with m predict_image_failure_events [OF assms(8)] show ?thesis by blast
qed

theorem failed_inference_raises_in_main_witness:
  "predict_image (Some failing_model) garden_tensor
     = (None, [Call_model_predict, Error ''Error making prediction: Graph execution error''])
   \<and> main (env_with failing_model) upload_and_click (loaded_session failing_model)
       = (Raise (TypeError ([CHR 0x27] @ ''NoneType'' @ [CHR 0x27]
                            @ '' object is not subscriptable'')),
          loaded_session failing_model,
          [Spinner ''Processing image...'', Call_Image_open ''garden.png'',
           Success ''Image processed successfully!'',
           Spinner ''Analyzing image... Please wait!'', Call_model_predict,
           Error ''Error making prediction: Graph execution error''])
   \<and> snd (script (env_with failing_model) upload_and_click (loaded_session failing_model))
       = [Spinner ''Processing image...'', Call_Image_open ''garden.png'',
          Success ''Image processed successfully!'',
          Spinner ''Analyzing image... Please wait!'', Call_model_predict,
          Error ''Error making prediction: Graph execution error'',
          Error (''Application Error: '' @ [CHR 0x27] @ ''NoneType'' @ [CHR 0x27]
                 @ '' object is not subscriptable''),
          Error ''Please refresh the page or contact support if the problem persists.'']"
proof -
  have a: "ss_model (loaded_session failing_model) = Some (Some failing_model)"
    "ss_model_loaded (loaded_session failing_model) = Some True"
    by (simp_all add: loaded_session_def)
  have b: "fst (model_dashboard (Some failing_model)) = Inr ()"
    by (simp add: model_dashboard_failing_model)
  have c: "file_uploader upload_and_click = Some garden_png" "button_clicked upload_and_click"
    by (simp_all add: upload_and_click_def)
  have d: "fst (validate_image (Some garden_png))" by (simp add: validate_image_garden_png)
  have p: "preprocess_image_try (pil_lib (env_with failing_model)) garden_png
      = Inr (garden_tensor, convert nearest_pil rgba_500x300 ''RGB'')"
    by (simp add: env_with_def preprocess_image_try_garden_png)
  have n: "file_name garden_png = ''garden.png''" by (simp add: garden_png_def)
  from failed_inference_raises_in_main
    [OF a b c(1) d p c(2) predict_image_failing_model [of garden_tensor]]
  show ?thesis
    by (simp add: predict_image_failing_model model_dashboard_failing_model n
        none_type_error_def)
qed

subsection \<open>A failed load\<close>

lemma load_model_failure:
  assumes "fst (load_model_try e) = Inl x"
  shows "fst (load_model e) = None
       \<and> snd (load_model e) = snd (load_model_try e) @ [Error (''Error loading model: '' @ str x)]"
  using assms by (cases "load_model_try e") (simp add: load_model_def)

lemma load_model_try_events:
  "set (snd (load_model_try e)) \<subseteq>
     {Spinner ''Downloading model from Google Drive... Please wait.'', Call_gdown_download,
      Success ''Model downloaded successfully!''}"
  by (auto simp add: load_model_try_def Let_def split: sum.splits)

lemma load_model_no_classify:
  "set (snd (load_model e)) \<inter> set classify_events = {}"
proof -
  have "set (snd (load_model e)) \<subseteq> set (snd (load_model_try e)) \<union> {ev. \<exists>m. ev = Error m}"
    by (cases "load_model_try e") (auto simp add: load_model_def split: sum.splits)
  with load_model_try_events [of e] show ?thesis
    by (auto simp add: classify_events_def)
qed

lemma missing_artifact_and_failed_fetch:
  assumes "\<not> path_exists e" and "gdown_download e = Inl y \<or> gdown_download e = Inr False"
  shows "\<exists>x. fst (load_model_try e) = Inl x"
  using assms by (auto simp add: load_model_try_def Let_def)

lemma main_first_run_load_fails:
  assumes "ss_model_loaded ss \<noteq> Some True" and "fst (load_model e) = None"
  shows "main e inp ss
     = (Stop, (init_session ss)\<lparr>ss_model := Some None, ss_model_loaded := Some True\<rparr>,
        Spinner ''Loading AI model... This may take a moment on first run.'' # snd (load_model e)
        @ [Error ''Failed to load model. Please check if the model file exists.''])"
proof -
  have "ss_model_loaded (init_session ss) \<noteq> Some True"
    using assms(1) by (auto simp add: init_session_def Let_def)
  then show ?thesis using assms(2)
    by (cases "load_model e") (simp add: main_def load_on_first_run_def Let_def)
qed

lemma main_refused:
  assumes "refused ss"
  shows "main e inp ss
     = (Stop, init_stats ss,
        [Error ''Model not loaded'', Error ''Model not available. Please refresh the page.''])"
proof -
  have i: "init_session ss = ss" using assms by (simp add: refused_def init_session_def)
  have l: "load_on_first_run e ss = (True, ss, [])"
    using assms by (simp add: refused_def load_on_first_run_def)
  have m: "session_model ss = None" "session_model (init_stats ss) = None"
    using assms by (simp_all add: refused_def session_model_def init_stats_def Let_def)
  show ?thesis
    by (simp add: main_def i l m render_sidebar_def model_dashboard_def)
qed

lemma refused_init_stats: "refused ss \<Longrightarrow> refused (init_stats ss)"
  by (simp add: refused_def init_stats_def Let_def)

lemma script_refused:
  assumes "refused ss"
  shows "script e inp ss
     = (init_stats ss,
        [Error ''Model not loaded'', Error ''Model not available. Please refresh the page.''])"
  by (simp add: script_def main_refused [OF assms])

lemma session_runs_refused:
  "refused ss \<Longrightarrow>
   refused (fst (session_runs rs ss))
   \<and> set (snd (session_runs rs ss))
       \<subseteq> {Error ''Model not loaded'', Error ''Model not available. Please refresh the page.''}"
proof (induction rs arbitrary: ss)
  case Nil
  then show ?case by simp
next
  case (Cons r rs)
  obtain e inp where r: "r = (e, inp)" by (cases r) auto
  from Cons.IH [OF refused_init_stats [OF Cons.prems]]
  show ?case using script_refused [OF Cons.prems, of e inp]
    by (simp add: r case_prod_beta)
qed

text \<open>
  C5: when the body of the \<open>try\<close> of \<open>load_model\<close> raises (as it does when the model file
  is missing and the download raises or leaves no file, or when Keras cannot load the file),
  \<open>load_model\<close> returns \<open>None\<close> and writes the error; the first run of \<open>main\<close> in a
  session then stops. Whatever the later runs of that session find outside and whatever the
  user does in them, the session keeps its \<open>None\<close> model with the load marked as done, and
  no run reaches the prediction: neither its spinner nor a call of \<open>model.predict\<close>
  appears. The example is a missing file with a failing download, followed by a run in which
  the file would be there.
\<close>

theorem failed_load_refuses_predictions:
  assumes "fst (load_model_try e) = Inl x" and "ss_model_loaded ss \<noteq> Some True"
  shows "fst (load_model e) = None
       \<and> Error (''Error loading model: '' @ str x) \<in> set (snd (load_model e))
       \<and> fst (main e inp ss) = Stop
       \<and> refused (fst (session_runs ((e, inp) # rs) ss))
       \<and> set (snd (session_runs ((e, inp) # rs) ss)) \<inter> set classify_events = {}"
proof -
  note f = load_model_failure [OF assms(1)]
  from f have n: "fst (load_model e) = None" by simp
  note m = main_first_run_load_fails [OF assms(2) n, of inp]
  define ss1 where "ss1 = (init_session ss)\<lparr>ss_model := Some None, ss_model_loaded := Some True\<rparr>"
  have r1: "refused ss1" by (simp add: ss1_def refused_def)
  have s: "script e inp ss = (ss1,
        Spinner ''Loading AI model... This may take a moment on first run.'' # snd (load_model e)
        @ [Error ''Failed to load model. Please check if the model file exists.''])"
    by (simp add: script_def m ss1_def)
  note later = session_runs_refused [OF r1, of rs]
  have ev: "snd (session_runs ((e, inp) # rs) ss)
      = (Spinner ''Loading AI model... This may take a moment on first run.'' # snd (load_model e)
        @ [Error ''Failed to load model. Please check if the model file exists.''])
        @ snd (session_runs rs ss1)"
    by (simp add: s case_prod_beta)
  have "set (snd (session_runs ((e, inp) # rs) ss)) \<inter> set classify_events = {}"
    unfolding ev using later load_model_no_classify [of e]
    by (auto simp add: classify_events_def)
  moreover have "refused (fst (session_runs ((e, inp) # rs) ss))"
    using later by (simp add: s case_prod_beta)
  ultimately show ?thesis using f m by simp
qed

theorem failed_load_refuses_predictions_witness:
  "\<not> path_exists env_unavailable
   \<and> fst (load_model_try env_unavailable) = Inl (LibraryError ''Failed to retrieve file url'')
   \<and> ss_model_loaded empty_session \<noteq> Some True
   \<and> fst (load_model env_unavailable) = None
   \<and> fst (main env_unavailable upload_and_click empty_session) = Stop
   \<and> set (snd (session_runs
        [(env_unavailable, upload_and_click), (env_with (const_model [9/10]), upload_and_click)]
        empty_session))
       \<inter> set classify_events = {}"
proof -
  have h1: "fst (load_model_try env_unavailable) = Inl (LibraryError ''Failed to retrieve file url'')"
    by (simp add: load_model_try_def env_unavailable_def)
  have h2: "ss_model_loaded empty_session \<noteq> Some True" by (simp add: empty_session_def)
  have h0: "\<not> path_exists env_unavailable" by (simp add: env_unavailable_def)
  from failed_load_refuses_predictions [OF h1 h2, of upload_and_click "[(env_with (const_model [9/10]), upload_and_click)]"]
  show ?thesis using h0 h1 h2 by simp
qed

subsection \<open>The session counters\<close>

lemma stats_inv_counters: "counters ss' = counters ss \<Longrightarrow> stats_inv ss' = stats_inv ss"
  by (simp add: stats_inv_def counters_def)

lemma counters_init_session [simp]: "counters (init_session ss) = counters ss"
  by (simp add: counters_def init_session_def Let_def)

lemma counters_load_on_first_run [simp]:
  "counters (fst (snd (load_on_first_run e ss))) = counters ss"
  by (simp add: counters_def load_on_first_run_def Let_def split: prod.splits)

lemma stats_inv_init_stats: "stats_inv ss \<Longrightarrow> stats_inv (init_stats ss)"
  by (auto simp add: stats_inv_def init_stats_def Let_def split: option.splits)

lemma counters_init_stats:
  "counters ss = (Some n, Some c, Some d) \<Longrightarrow> counters (init_stats ss) = (Some n, Some c, Some d)"
  by (simp add: counters_def init_stats_def)

lemma init_stats_present:
  "\<exists>n c d. counters (init_stats ss) = (Some n, Some c, Some d)"
  by (cases "predictions_made ss"; cases "cats_detected ss"; cases "dogs_detected ss")
     (simp_all add: counters_def init_stats_def)

lemma render_sidebar_session:
  "fst (snd (render_sidebar mo inp ss)) = ss \<or> fst (snd (render_sidebar mo inp ss)) = init_stats ss"
  by (simp add: render_sidebar_def split: prod.splits sum.splits)

lemma update_statistics_present:
  assumes "counters ss = (Some n, Some c, Some d)"
  shows "\<exists>ss'. update_statistics r ss = Inr ss'
     \<and> counters ss' = (Some (n + 1),
                        Some (if predicted_class r = ''Cat'' then c + 1 else c),
                        Some (if predicted_class r = ''Cat'' then d else d + 1))
     \<and> ss_model ss' = ss_model ss \<and> ss_model_loaded ss' = ss_model_loaded ss"
  using assms by (simp add: update_statistics_def counters_def)

lemma stats_inv_render_prediction_results:
  assumes "stats_inv ss"
  shows "stats_inv (fst (snd (render_prediction_results ro s ss)))"
proof (cases ro)
  case None
  then show ?thesis using assms by (simp add: render_prediction_results_def)
next
  case (Some r)
  show ?thesis
  proof (cases "predictions_made ss")
    case None
    then show ?thesis using assms Some
      by (simp add: render_prediction_results_def update_statistics_def)
  next
    case n: (Some n)
    with assms obtain c d where cd: "cats_detected ss = Some c" "dogs_detected ss = Some d"
      and eq: "n = c + d"
      by (auto simp add: stats_inv_def split: option.splits)
    from n cd have "counters ss = (Some n, Some c, Some d)" by (simp add: counters_def)
    from update_statistics_present [OF this, of r]
    obtain ss' where u: "update_statistics r ss = Inr ss'"
      and c': "counters ss' = (Some (n + 1),
                        Some (if predicted_class r = ''Cat'' then c + 1 else c),
                        Some (if predicted_class r = ''Cat'' then d else d + 1))"
      by blast
    have "stats_inv ss'" using c' eq by (simp add: stats_inv_def counters_def)
    then show ?thesis using Some u by (simp add: render_prediction_results_def)
  qed
qed

lemma predict_and_show_completed:
  assumes "predict_image mo x = (Some r, evs)"
    and "counters ss = (Some n, Some c, Some d)"
  shows "\<exists>ss'. predict_and_show mo x s ss
     = (Return, ss',
        Spinner ''Analyzing image... Please wait!'' # evs @ result_display r s
        @ (if confidence r \<ge> confidence_threshold s then [Balloons]
           else [Error ''Failed to make prediction. Please try again.'']))
     \<and> counters ss' = (Some (n + 1),
                        Some (if predicted_class r = ''Cat'' then c + 1 else c),
                        Some (if predicted_class r = ''Cat'' then d else d + 1))
     \<and> ss_model ss' = ss_model ss \<and> ss_model_loaded ss' = ss_model_loaded ss"
proof -
  from update_statistics_present [OF assms(2), of r]
  obtain ss' where u: "update_statistics r ss = Inr ss'"
    and c': "counters ss' = (Some (n + 1),
                        Some (if predicted_class r = ''Cat'' then c + 1 else c),
                        Some (if predicted_class r = ''Cat'' then d else d + 1))"
    and m: "ss_model ss' = ss_model ss" "ss_model_loaded ss' = ss_model_loaded ss"
    by blast
  have "predict_and_show mo x s ss
     = (Return, ss',
        Spinner ''Analyzing image... Please wait!'' # evs @ result_display r s
        @ (if confidence r \<ge> confidence_threshold s then [Balloons]
           else [Error ''Failed to make prediction. Please try again.'']))"
    using assms(1) u by (simp add: predict_and_show_def render_prediction_results_def)
  with c' m show ?thesis by blast
qed

lemma stats_inv_predict_and_show:
  assumes "stats_inv ss"
  shows "stats_inv (fst (snd (predict_and_show mo x s ss)))"
proof -
  obtain ro evs where p: "predict_image mo x = (ro, evs)" by (cases "predict_image mo x") auto
  show ?thesis
  proof (cases ro)
    case None
    then show ?thesis using p assms by (simp add: predict_and_show_def Let_def)
  next
    case (Some r)
    with p have "fst (snd (predict_and_show mo x s ss))
        = fst (snd (render_prediction_results (Some r) s ss))"
      by (simp add: predict_and_show_def case_prod_beta Let_def split: sum.splits)
    then show ?thesis using stats_inv_render_prediction_results [OF assms] by simp
  qed
qed

lemma main_session_cases:
  "\<exists>ss1. counters ss1 = counters ss \<and>
     (fst (snd (main e inp ss)) = ss1
      \<or> fst (snd (main e inp ss)) = init_stats ss1
      \<or> (\<exists>mo x s. fst (snd (main e inp ss)) = fst (snd (predict_and_show mo x s (init_stats ss1)))))"
proof -
  obtain b ss1 evs1 where L: "load_on_first_run e (init_session ss) = (b, ss1, evs1)"
    by (cases "load_on_first_run e (init_session ss)") auto
  have c: "counters ss1 = counters ss"
    using counters_load_on_first_run [of e "init_session ss"] L by simp
  obtain r ss2 evs2 where S: "render_sidebar (session_model ss1) inp ss1 = (r, ss2, evs2)"
    by (cases "render_sidebar (session_model ss1) inp ss1") auto
  have s2: "r = Inr s \<Longrightarrow> ss2 = init_stats ss1" for s
    using S by (simp add: render_sidebar_def split: prod.splits sum.splits)
  have s2': "r = Inl x \<Longrightarrow> ss2 = ss1" for x
    using S by (auto simp add: render_sidebar_def split: prod.splits sum.splits)
  have "fst (snd (main e inp ss)) = ss1
      \<or> fst (snd (main e inp ss)) = init_stats ss1
      \<or> (\<exists>mo x s. fst (snd (main e inp ss)) = fst (snd (predict_and_show mo x s (init_stats ss1))))"
  proof (cases b)
    case False
    then show ?thesis using L by (simp add: main_def)
  next
    case True
    show ?thesis
    proof (cases r)
      case (Inl x)
      then show ?thesis using L S True s2' by (simp add: main_def)
    next
      case (Inr s)
      note i = s2 [OF Inr]
      show ?thesis
      proof (cases "file_uploader inp")
        case None
        then show ?thesis using L S True Inr i by (simp add: main_def)
      next
        case (Some f)
        obtain po oo evs3 where D: "render_image_display (pil_lib e) f s = ((po, oo), evs3)"
          by (cases "render_image_display (pil_lib e) f s") auto
        show ?thesis
        proof (cases po)
          case None
          then show ?thesis using L S True Inr Some D i by (simp add: main_def)
        next
          case x: (Some x)
          show ?thesis
          proof (cases "button_clicked inp \<and> session_model ss2 \<noteq> None")
            case False
            then show ?thesis using L S True Inr Some D i x by (auto simp add: main_def)
          next
            case t: True
            then have "fst (snd (main e inp ss))
                = fst (snd (predict_and_show (session_model ss2) x s (init_stats ss1)))"
              using L S True Inr Some D i x by (auto simp add: main_def case_prod_beta)
            then show ?thesis by blast
          qed
        qed
      qed
    qed
  qed
  with c show ?thesis by blast
qed

lemma stats_inv_main:
  assumes "stats_inv ss"
  shows "stats_inv (fst (snd (main e inp ss)))"
proof -
  from main_session_cases [of ss e inp]
  obtain ss1 where c: "counters ss1 = counters ss"
    and m: "fst (snd (main e inp ss)) = ss1
      \<or> fst (snd (main e inp ss)) = init_stats ss1
      \<or> (\<exists>mo x s. fst (snd (main e inp ss)) = fst (snd (predict_and_show mo x s (init_stats ss1))))"
    by blast
  have i1: "stats_inv ss1" using c assms stats_inv_counters by blast
  then have i2: "stats_inv (init_stats ss1)" by (rule stats_inv_init_stats)
  from m i1 i2 stats_inv_predict_and_show [OF i2] show ?thesis by auto
qed

lemma predict_and_show_ignores_counters:
  assumes "counters ss = (Some n, Some c, Some d)" and "counters ss' = (Some n', Some c', Some d')"
  shows "fst (predict_and_show mo x s ss) = fst (predict_and_show mo x s ss')
       \<and> snd (snd (predict_and_show mo x s ss)) = snd (snd (predict_and_show mo x s ss'))"
proof -
  obtain ro evs where p: "predict_image mo x = (ro, evs)" by (cases "predict_image mo x") auto
  show ?thesis
  proof (cases ro)
    case None
    with p show ?thesis by (simp add: predict_and_show_failed)
  next
    case (Some r)
    with p have q: "predict_image mo x = (Some r, evs)" by simp
    from predict_and_show_completed [OF q assms(1), of s]
      predict_and_show_completed [OF q assms(2), of s]
    show ?thesis by auto
  qed
qed

lemma same_but_counters_init_session:
  "same_but_counters ss ss' \<Longrightarrow> same_but_counters (init_session ss) (init_session ss')"
  by (simp add: same_but_counters_def init_session_def Let_def)

lemma same_but_counters_load:
  assumes "same_but_counters ss ss'"
  shows "fst (load_on_first_run e ss) = fst (load_on_first_run e ss')
       \<and> snd (snd (load_on_first_run e ss)) = snd (snd (load_on_first_run e ss'))
       \<and> same_but_counters (fst (snd (load_on_first_run e ss))) (fst (snd (load_on_first_run e ss')))"
  using assms
  by (simp add: same_but_counters_def load_on_first_run_def Let_def split: prod.splits)

lemma same_but_counters_init_stats:
  "same_but_counters ss ss' \<Longrightarrow> same_but_counters (init_stats ss) (init_stats ss')"
  by (simp add: same_but_counters_def init_stats_def Let_def)

lemma session_model_same: "same_but_counters ss ss' \<Longrightarrow> session_model ss = session_model ss'"
  by (simp add: same_but_counters_def session_model_def)

lemma main_ignores_counters:
  assumes "same_but_counters ss ss'"
  shows "fst (main e inp ss) = fst (main e inp ss')
       \<and> snd (snd (main e inp ss)) = snd (snd (main e inp ss'))"
proof -
  obtain b ss1 evs1 where L: "load_on_first_run e (init_session ss) = (b, ss1, evs1)"
    by (cases "load_on_first_run e (init_session ss)") auto
  obtain b' ss1' evs1' where L': "load_on_first_run e (init_session ss') = (b', ss1', evs1')"
    by (cases "load_on_first_run e (init_session ss')") auto
  from same_but_counters_load [OF same_but_counters_init_session [OF assms], of e] L L'
  have eq: "b' = b" "evs1' = evs1" and sb: "same_but_counters ss1 ss1'" by simp_all
  note mo = session_model_same [OF sb]
  note mo2 = session_model_same [OF same_but_counters_init_stats [OF sb]]
  obtain r evs2 where D: "model_dashboard (session_model ss1) = (r, evs2)"
    by (cases "model_dashboard (session_model ss1)") auto
  show ?thesis
  proof (cases b)
    case False
    then show ?thesis using L L' eq by (simp add: main_def)
  next
    case True
    show ?thesis
    proof (cases r)
      case (Inl x)
      then show ?thesis using L L' eq True D mo by (simp add: main_def render_sidebar_def)
    next
      case (Inr u)
      show ?thesis
      proof (cases "file_uploader inp")
        case None
        then show ?thesis
          using L L' eq True D mo mo2 Inr by (simp add: main_def render_sidebar_def)
      next
        case (Some f)
        define s where "s = \<lparr>confidence_threshold = slider_confidence_threshold inp,
                show_probabilities = toggle_show_probabilities inp,
                show_image_info = toggle_show_image_info inp,
                show_processing_steps = toggle_show_processing_steps inp,
                theme = theme_choice inp\<rparr>"
        obtain po oo evs3 where R: "render_image_display (pil_lib e) f s = ((po, oo), evs3)"
          by (cases "render_image_display (pil_lib e) f s") auto
        from init_stats_present [of ss1] init_stats_present [of ss1']
        obtain n c d n' c' d' where
          "counters (init_stats ss1) = (Some n, Some c, Some d)"
          "counters (init_stats ss1') = (Some n', Some c', Some d')" by blast
        note P = predict_and_show_ignores_counters [OF this]
        show ?thesis
          using L L' eq True D mo mo2 Inr Some R [unfolded s_def] P
          by (cases po) (simp_all add: main_def render_sidebar_def case_prod_beta)
      qed
    qed
  qed
qed

lemma shown_none:
  "(\<And>ev. ev \<in> set evs \<Longrightarrow> shown_result ev = []) \<Longrightarrow> shown_results evs = []"
  by (induction evs) (simp_all add: shown_results_def)

lemma shown_load_on_first_run [simp]:
  "shown_results (snd (snd (load_on_first_run e ss))) = []"
proof -
  have "shown_results (snd (load_model e)) = []"
  proof (rule shown_none)
    fix ev assume "ev \<in> set (snd (load_model e))"
    then have "ev \<in> set (snd (load_model_try e)) \<union> {ev. \<exists>m. ev = Error m}"
      by (cases "load_model_try e") (auto simp add: load_model_def split: sum.splits)
    with load_model_try_events [of e] show "shown_result ev = []" by auto
  qed
  then show ?thesis
    by (simp add: load_on_first_run_def Let_def case_prod_beta)
qed

lemma shown_render_sidebar [simp]:
  "shown_results (snd (snd (render_sidebar mo inp ss))) = []"
  by (simp add: render_sidebar_def model_dashboard_def get_model_info_def Let_def
      split: option.splits sum.splits)

lemma shown_render_image_display [simp]:
  "shown_results (snd (render_image_display p f s)) = []"
  by (simp add: render_image_display_def validate_image_def preprocess_image_def
      split: sum.splits prod.splits)

lemma predict_and_show_counts:
  assumes "counters ss = (Some n, Some c, Some d)"
  shows "\<exists>k. (k = 0 \<or> k = 1)
       \<and> length (shown_results (snd (snd (predict_and_show mo x s ss)))) = k
       \<and> predictions_made (fst (snd (predict_and_show mo x s ss))) = Some (n + int k)"
proof -
  obtain ro evs where p: "predict_image mo x = (ro, evs)" by (cases "predict_image mo x") auto
  have e: "shown_results evs = []" using shown_predict_image [of mo x] p by simp
  show ?thesis
  proof (cases ro)
    case None
    with p e assms show ?thesis by (simp add: predict_and_show_failed counters_def)
  next
    case (Some r)
    with p have q: "predict_image mo x = (Some r, evs)" by simp
    have t: "shown_results (if confidence r \<ge> confidence_threshold s then [Balloons]
           else [Error ''Failed to make prediction. Please try again.'']) = []"
      by simp
    from predict_and_show_completed [OF q assms, of s]
    show ?thesis using e t result_display_shown [of r s] by (auto simp add: counters_def)
  qed
qed

lemma main_counts:
  assumes "counters ss = (Some n, Some c, Some d)"
  shows "\<exists>k. (k = 0 \<or> k = 1)
       \<and> length (shown_results (snd (snd (main e inp ss)))) = k
       \<and> predictions_made (fst (snd (main e inp ss))) = Some (n + int k)"
proof -
  obtain b ss1 evs1 where L: "load_on_first_run e (init_session ss) = (b, ss1, evs1)"
    by (cases "load_on_first_run e (init_session ss)") auto
  have c1: "counters ss1 = (Some n, Some c, Some d)"
    using counters_load_on_first_run [of e "init_session ss"] L assms by simp
  have e1: "shown_results evs1 = []"
    using shown_load_on_first_run [of e "init_session ss"] L by simp
  obtain r ss2 evs2 where S: "render_sidebar (session_model ss1) inp ss1 = (r, ss2, evs2)"
    by (cases "render_sidebar (session_model ss1) inp ss1") auto
  have e2: "shown_results evs2 = []"
    using shown_render_sidebar [of "session_model ss1" inp ss1] S by simp
  have "ss2 = ss1 \<or> ss2 = init_stats ss1"
    using render_sidebar_session [of "session_model ss1" inp ss1] S by simp
  then have c2: "counters ss2 = (Some n, Some c, Some d)"
    using c1 counters_init_stats [OF c1] by auto
  then have p2: "predictions_made ss2 = Some n" by (simp add: counters_def)
  have p1: "predictions_made ss1 = Some n" using c1 by (simp add: counters_def)
  show ?thesis
  proof (cases b)
    case False
    then show ?thesis using L e1 p1 by (simp add: main_def)
  next
    case True
    show ?thesis
    proof (cases r)
      case (Inl x)
      then show ?thesis using L S True e1 e2 p2 by (simp add: main_def)
    next
      case (Inr s)
      show ?thesis
      proof (cases "file_uploader inp")
        case None
        then show ?thesis using L S True Inr e1 e2 p2 by (simp add: main_def)
      next
        case (Some f)
        obtain po oo evs3 where D: "render_image_display (pil_lib e) f s = ((po, oo), evs3)"
          by (cases "render_image_display (pil_lib e) f s") auto
        have e3: "shown_results evs3 = []"
          using shown_render_image_display [of "pil_lib e" f s] D by simp
        show ?thesis
        proof (cases po)
          case None
          then show ?thesis using L S True Inr Some D e1 e2 e3 p2 by (simp add: main_def)
        next
          case x: (Some x)
          from predict_and_show_counts [OF c2, of "session_model ss2" x s]
          show ?thesis
            using L S True Inr Some D e1 e2 e3 p2 x
            by (simp add: main_def case_prod_beta)
        qed
      qed
    qed
  qed
qed

lemma predict_and_show_counters:
  assumes "counters ss = (Some n, Some c, Some d)"
  shows "counters (fst (snd (predict_and_show mo x s ss)))
     = (case shown_results (snd (snd (predict_and_show mo x s ss))) of
          [] \<Rightarrow> (Some n, Some c, Some d)
        | [(l, cf)] \<Rightarrow>
            (Some (n + 1), Some (if l = ''Cat'' then c + 1 else c),
             Some (if l = ''Cat'' then d else d + 1))
        | _ \<Rightarrow> (None, None, None))"
proof -
  obtain ro evs where p: "predict_image mo x = (ro, evs)" by (cases "predict_image mo x") auto
  have e: "shown_results evs = []" using shown_predict_image [of mo x] p by simp
  show ?thesis
  proof (cases ro)
    case None
    with p e assms show ?thesis by (simp add: predict_and_show_failed)
  next
    case (Some r)
    with p have q: "predict_image mo x = (Some r, evs)" by simp
    have t: "shown_results (if confidence r \<ge> confidence_threshold s then [Balloons]
           else [Error ''Failed to make prediction. Please try again.'']) = []"
      by simp
    from predict_and_show_completed [OF q assms, of s]
    show ?thesis using e t result_display_shown [of r s] by auto
  qed
qed

lemma main_counters:
  assumes "counters ss = (Some n, Some c, Some d)"
  shows "counters (fst (snd (main e inp ss)))
     = (case shown_results (snd (snd (main e inp ss))) of
          [] \<Rightarrow> (Some n, Some c, Some d)
        | [(l, cf)] \<Rightarrow>
            (Some (n + 1), Some (if l = ''Cat'' then c + 1 else c),
             Some (if l = ''Cat'' then d else d + 1))
        | _ \<Rightarrow> (None, None, None))"
proof -
  obtain b ss1 evs1 where L: "load_on_first_run e (init_session ss) = (b, ss1, evs1)"
    by (cases "load_on_first_run e (init_session ss)") auto
  have c1: "counters ss1 = (Some n, Some c, Some d)"
    using counters_load_on_first_run [of e "init_session ss"] L assms by simp
  have e1: "shown_results evs1 = []"
    using shown_load_on_first_run [of e "init_session ss"] L by simp
  obtain r ss2 evs2 where S: "render_sidebar (session_model ss1) inp ss1 = (r, ss2, evs2)"
    by (cases "render_sidebar (session_model ss1) inp ss1") auto
  have e2: "shown_results evs2 = []"
    using shown_render_sidebar [of "session_model ss1" inp ss1] S by simp
  have "ss2 = ss1 \<or> ss2 = init_stats ss1"
    using render_sidebar_session [of "session_model ss1" inp ss1] S by simp
  then have c2: "counters ss2 = (Some n, Some c, Some d)"
    using c1 counters_init_stats [OF c1] by auto
  show ?thesis
  proof (cases b)
    case False
    then show ?thesis using L e1 c1 by (simp add: main_def)
  next
    case True
    show ?thesis
    proof (cases r)
      case (Inl x)
      then show ?thesis using L S True e1 e2 c2 by (simp add: main_def)
    next
      case (Inr s)
      show ?thesis
      proof (cases "file_uploader inp")
        case None
        then show ?thesis using L S True Inr e1 e2 c2 by (simp add: main_def)
      next
        case (Some f)
        obtain po oo evs3 where D: "render_image_display (pil_lib e) f s = ((po, oo), evs3)"
          by (cases "render_image_display (pil_lib e) f s") auto
        have e3: "shown_results evs3 = []"
          using shown_render_image_display [of "pil_lib e" f s] D by simp
        show ?thesis
        proof (cases po)
          case None
          then show ?thesis using L S True Inr Some D e1 e2 e3 c2 by (simp add: main_def)
        next
          case x: (Some x)
          from predict_and_show_counters [OF c2, of "session_model ss2" x s]
          show ?thesis
            using L S True Inr Some D e1 e2 e3 c2 x
            by (simp add: main_def case_prod_beta)
        qed
      qed
    qed
  qed
qed

lemma stats_inv_script: "stats_inv ss \<Longrightarrow> stats_inv (fst (script e inp ss))"
  by (simp add: script_session stats_inv_main)

lemma stats_inv_session_runs: "stats_inv ss \<Longrightarrow> stats_inv (fst (session_runs rs ss))"
proof (induction rs arbitrary: ss)
  case Nil
  then show ?case by simp
next
  case (Cons r rs)
  obtain e inp where r: "r = (e, inp)" by (cases r) auto
  from Cons.IH [OF stats_inv_script [OF Cons.prems, of e inp]]
  show ?case by (simp add: r case_prod_beta)
qed

lemma stats_inv_render_sidebar:
  "stats_inv ss \<Longrightarrow> stats_inv (fst (snd (render_sidebar mo inp ss)))"
  using render_sidebar_session [of mo inp ss] stats_inv_init_stats [of ss] by auto

lemma render_prediction_results_counters:
  assumes "counters ss = (Some n, Some c, Some d)"
  shows "counters (fst (snd (render_prediction_results ro s ss)))
     = (case ro of
          None \<Rightarrow> (Some n, Some c, Some d)
        | Some r \<Rightarrow>
            (Some (n + 1), Some (if predicted_class r = ''Cat'' then c + 1 else c),
             Some (if predicted_class r = ''Cat'' then d else d + 1)))"
proof (cases ro)
  case None
  then show ?thesis using assms by (simp add: render_prediction_results_def)
next
  case (Some r)
  from update_statistics_present [OF assms, of r] Some
  show ?thesis by (auto simp add: render_prediction_results_def)
qed

text \<open>
  C10: the statistics invariant (the three counters all absent, or all present with
  \<open>predictions_made = cats_detected + dogs_detected\<close>) is kept by the sidebar, by the
  result rendering, by \<open>main\<close>, by the script and so by every sequence of runs. With the
  counters present, \<open>render_prediction_results\<close> on a result adds one to
  \<open>predictions_made\<close> and one to \<open>cats_detected\<close> when the label is Cat and to
  \<open>dogs_detected\<close> otherwise, and leaves the counters alone when there is no result; a run
  of \<open>main\<close> shows at most one result and changes the counters in this way exactly when it
  shows one. How \<open>main\<close> ends and what it writes does not depend on the counters:
  \<open>predict_image\<close> takes the model and the tensor only. (The sidebar shows the three
  counters with \<open>st.metric\<close>, which is not among the recorded events.)
\<close>

theorem session_counters_once_per_prediction:
  assumes "stats_inv ss"
  shows "stats_inv (fst (snd (render_sidebar mo inp ss)))
       \<and> stats_inv (fst (snd (render_prediction_results ro s ss)))
       \<and> stats_inv (fst (snd (main e inp ss)))
       \<and> stats_inv (fst (script e inp ss))
       \<and> stats_inv (fst (session_runs rs ss))
       \<and> (counters ss = (Some n, Some c, Some d) \<longrightarrow>
            counters (fst (snd (render_prediction_results ro s ss)))
              = (case ro of
                   None \<Rightarrow> (Some n, Some c, Some d)
                 | Some r \<Rightarrow>
                     (Some (n + 1), Some (if predicted_class r = ''Cat'' then c + 1 else c),
                      Some (if predicted_class r = ''Cat'' then d else d + 1)))
            \<and> length (shown_results (snd (snd (main e inp ss)))) \<le> 1
            \<and> counters (fst (snd (main e inp ss)))
                = (case shown_results (snd (snd (main e inp ss))) of
                     [] \<Rightarrow> (Some n, Some c, Some d)
                   | [(l, cf)] \<Rightarrow>
                       (Some (n + 1), Some (if l = ''Cat'' then c + 1 else c),
                        Some (if l = ''Cat'' then d else d + 1))
                   | _ \<Rightarrow> (None, None, None)))
       \<and> (same_but_counters ss ss' \<longrightarrow>
            fst (main e inp ss) = fst (main e inp ss')
            \<and> snd (snd (main e inp ss)) = snd (snd (main e inp ss')))"
proof -
  have "length (shown_results (snd (snd (main e inp ss)))) \<le> 1"
    if "counters ss = (Some n, Some c, Some d)"
    using main_counts [OF that, of e inp] by auto
  then show ?thesis
    using assms stats_inv_render_sidebar [OF assms, of mo inp]
      stats_inv_render_prediction_results [OF assms, of ro s]
      stats_inv_main [OF assms, of e inp] stats_inv_script [OF assms, of e inp]
      stats_inv_session_runs [OF assms, of rs]
      render_prediction_results_counters [of ss n c d ro s]
      main_counters [of ss n c d e inp]
      main_ignores_counters [of ss ss' e inp]
    by blast
qed

theorem session_counters_once_per_prediction_witness:
  "stats_inv (loaded_session (const_model [7/10]))
   \<and> counters (loaded_session (const_model [7/10])) = (Some 3, Some 1, Some 2)
   \<and> shown_results (snd (snd (main (env_with (const_model [7/10])) (upload_and_click_at (8/10))
                                  (loaded_session (const_model [7/10])))))
       = [(''Dog'', 7/10)]
   \<and> counters (fst (snd (main (env_with (const_model [7/10])) (upload_and_click_at (8/10))
                             (loaded_session (const_model [7/10])))))
       = (Some 4, Some 1, Some 3)
   \<and> stats_inv (fst (snd (main (env_with (const_model [7/10])) (upload_and_click_at (8/10))
                             (loaded_session (const_model [7/10])))))"
proof -
  let ?ss = "loaded_session (const_model [7/10])"
  let ?e = "env_with (const_model [7/10])"
  have i: "stats_inv ?ss" by (simp add: stats_inv_def loaded_session_def)
  have c: "counters ?ss = (Some 3, Some 1, Some 2)" by (simp add: counters_def loaded_session_def)
  have s: "shown_results (snd (snd (main ?e (upload_and_click_at (8/10)) ?ss))) = [(''Dog'', 7/10)]"
    by (simp add: main_const_model_dog)
  from session_counters_once_per_prediction
    [OF i, where e = ?e and inp = "upload_and_click_at (8/10)" and n = 3 and c = 1 and d = 2]
  have "stats_inv (fst (snd (main ?e (upload_and_click_at (8/10)) ?ss)))"
    and "counters (fst (snd (main ?e (upload_and_click_at (8/10)) ?ss)))
       = (case shown_results (snd (snd (main ?e (upload_and_click_at (8/10)) ?ss))) of
                     [] \<Rightarrow> (Some 3, Some 1, Some 2)
                   | [(l, cf)] \<Rightarrow>
                       (Some (3 + 1), Some (if l = ''Cat'' then 1 + 1 else 1),
                        Some (if l = ''Cat'' then 2 else 2 + 1))
                   | _ \<Rightarrow> (None, None, None))"
    using c by blast+
  then show ?thesis using i c s by simp
qed

end
